theory Spec2Isabelle
  imports Complex_Main "HOL-Library.Multiset"
begin

section \<open>Text primitives of the host language\<close>

text \<open>
  Strings are lists of 8-bit characters.  The program's text is Python \<open>str\<close>; the model
  covers the ASCII range, where \<open>strip\<close>, \<open>upper\<close>, \<open>lower\<close> and the character classes
  \<open>[A-Z]\<close>, \<open>[a-z]\<close>, \<open>[0-9]\<close> act as written below.
\<close>

definition ascii_lowercase :: string where
  "ascii_lowercase = ''abcdefghijklmnopqrstuvwxyz''"

definition ascii_uppercase :: string where
  "ascii_uppercase = ''ABCDEFGHIJKLMNOPQRSTUVWXYZ''"

definition ascii_digits :: string where
  "ascii_digits = ''0123456789''"

definition is_upper :: "char \<Rightarrow> bool" where
  "is_upper c = (c \<in> set ascii_uppercase)"

definition is_lower :: "char \<Rightarrow> bool" where
  "is_lower c = (c \<in> set ascii_lowercase)"

definition is_digit :: "char \<Rightarrow> bool" where
  "is_digit c = (c \<in> set ascii_digits)"

text \<open>The characters removed by \<open>str.strip()\<close> in the ASCII range.\<close>

definition is_space :: "char \<Rightarrow> bool" where
  "is_space c = (c \<in> set [CHR 0x09, CHR 0x0A, CHR 0x0B, CHR 0x0C, CHR 0x0D,
                             CHR 0x1C, CHR 0x1D, CHR 0x1E, CHR 0x1F, CHR 0x20])"

definition strip :: "string \<Rightarrow> string" where
  "strip s = rev (dropWhile is_space (rev (dropWhile is_space s)))"

definition upper_char :: "char \<Rightarrow> char" where
  "upper_char c = (case map_of (zip ascii_lowercase ascii_uppercase) c of
                     Some d \<Rightarrow> d | None \<Rightarrow> c)"

definition lower_char :: "char \<Rightarrow> char" where
  "lower_char c = (case map_of (zip ascii_uppercase ascii_lowercase) c of
                     Some d \<Rightarrow> d | None \<Rightarrow> c)"

definition upper :: "string \<Rightarrow> string" where
  "upper s = map upper_char s"

definition lower :: "string \<Rightarrow> string" where
  "lower s = map lower_char s"

text \<open>\<open>s.ljust(n, c)\<close> and the slice \<open>s[:n]\<close>.\<close>

definition ljust :: "nat \<Rightarrow> char \<Rightarrow> string \<Rightarrow> string" where
  "ljust n c s = s @ replicate (n - length s) c"

text \<open>
  \<open>re.fullmatch\<close> of a pattern that is a plain sequence of character classes: the text
  has one character per class, each in its class.
\<close>

definition fullmatch_classes :: "(char \<Rightarrow> bool) list \<Rightarrow> string \<Rightarrow> bool" where
  "fullmatch_classes ps s = list_all2 (\<lambda>p c. p c) ps s"

text \<open>Decimal text of an integer, as \<open>str\<close> gives it.\<close>

definition digit_char :: "nat \<Rightarrow> char" where
  "digit_char d = ascii_digits ! d"

function str_of_nat :: "nat \<Rightarrow> string" where
  "str_of_nat n = (if n < 10 then [digit_char n]
                   else str_of_nat (n div 10) @ [digit_char (n mod 10)])"
  by pat_completeness auto
termination
  by (relation "measure (\<lambda>n. n)") auto

declare str_of_nat.simps [simp del]

definition str_of_int :: "int \<Rightarrow> string" where
  "str_of_int i = (if i < 0 then CHR ''-'' # str_of_nat (nat (- i)) else str_of_nat (nat i))"

section \<open>Table cells and the library functions the program calls\<close>

text \<open>
  A cell of a data frame: \<open>None\<close>, the float \<open>nan\<close>, the missing timestamp \<open>NaT\<close>, text,
  an integer, a float (its value as a real number) or a timestamp (nanoseconds since the
  epoch).
\<close>

datatype cell = PyNone | NaN | NaT | Str string | IntC int | FloatC real | Ts int

text \<open>
  Functions of Python and pandas that the program calls and that are not part of its
  source are taken as parameters: the text \<open>str(x)\<close> of a float and of a timestamp, the
  format \<open>f"{x:.2f}"\<close>, the conversion \<open>float(s)\<close> (\<open>None\<close> when it raises
  \<open>ValueError\<close>), and the two column parsers
  \<open>pd.to_datetime(col, errors='coerce', dayfirst=True)\<close> and
  \<open>pd.to_datetime(col, errors='coerce', format='mixed')\<close>.
\<close>

record pylib =
  float_str :: "real \<Rightarrow> string"
  ts_str :: "int \<Rightarrow> string"
  format_2f :: "real \<Rightarrow> string"
  py_float :: "string \<Rightarrow> real option"
  to_datetime_dayfirst :: "cell list \<Rightarrow> cell list"
  to_datetime_mixed :: "cell list \<Rightarrow> cell list"

text \<open>\<open>pd.isna\<close> on a scalar.\<close>

fun isna :: "cell \<Rightarrow> bool" where
  "isna PyNone = True"
| "isna NaN = True"
| "isna NaT = True"
| "isna _ = False"

text \<open>\<open>str(x)\<close>, which is also what \<open>astype(str)\<close> applies to every cell.\<close>

fun py_str :: "pylib \<Rightarrow> cell \<Rightarrow> string" where
  "py_str L PyNone = ''None''"
| "py_str L NaN = ''nan''"
| "py_str L NaT = ''NaT''"
| "py_str L (Str s) = s"
| "py_str L (IntC i) = str_of_int i"
| "py_str L (FloatC r) = float_str L r"
| "py_str L (Ts t) = ts_str L t"

section \<open>Identifier cleansing: \<open>clean_gstin\<close>\<close>

text \<open>
  The structural pattern
  \<open>[0-9]{2}[A-Z]{5}[0-9]{4}[A-Z]{1}[1-9A-Z]{1}Z[0-9A-Z]{1}\<close>.
\<close>

definition gstin_pattern :: "(char \<Rightarrow> bool) list" where
  "gstin_pattern =
     replicate 2 is_digit @ replicate 5 is_upper @ replicate 4 is_digit @
     [is_upper,
      (\<lambda>c. (is_digit c \<and> c \<noteq> CHR ''0'') \<or> is_upper c),
      (\<lambda>c. c = CHR ''Z''),
      (\<lambda>c. is_digit c \<or> is_upper c)]"

text \<open>
  The text after \<open>str(gstin).strip().upper()\<close> and \<open>re.sub(r'[^A-Z0-9]', '', gstin)\<close>.
\<close>

definition cleansed_form :: "string \<Rightarrow> string" where
  "cleansed_form s = filter (\<lambda>c. is_upper c \<or> is_digit c) (upper (strip s))"

text \<open>Truncation to 15 characters or padding with \<open>X\<close> to 15 characters.\<close>

definition fit15 :: "string \<Rightarrow> string" where
  "fit15 g = (if length g > 15 then take 15 g
              else if length g < 15 then ljust 15 (CHR ''X'') g
              else g)"

text \<open>The condition under which \<open>clean_gstin\<close> returns without a warning.\<close>

definition gstin_valid :: "string \<Rightarrow> bool" where
  "gstin_valid g = (length g = 15 \<and> list_all is_digit (take 2 g) \<and> take 2 g \<noteq> []
                    \<and> fullmatch_classes gstin_pattern g)"

text \<open>
  \<open>clean_gstin\<close> returns the cleansed text; the second component records whether the
  warning "appears to be invalid after cleaning" was logged.
\<close>

definition clean_gstin :: "pylib \<Rightarrow> cell \<Rightarrow> string \<times> bool" where
  "clean_gstin L gstin =
     (if isna gstin \<or> lower (strip (py_str L gstin)) \<in> set ['''', ''nan'', ''none'']
      then ('''', False)
      else let g = fit15 (cleansed_form (py_str L gstin))
           in if gstin_valid g then (g, False) else (g, True))"

section \<open>Floating-point numbers\<close>

text \<open>
  A Python float is an IEEE 754 binary64 number.  A float is modelled by the real number
  it denotes, and an operation that produces a float rounds its exact result to the
  nearest binary64 number, ties to the even significand.  \<open>float64\<close> is this rounding,
  for normal and for subnormal magnitudes: the exponent is found by halving or doubling
  the magnitude, and the significand of 53 bits is rounded.  Overflow to infinity is not
  modelled; a magnitude of \<open>2^1024\<close> or more is rounded like the ones below it.
\<close>

text \<open>The nearest natural number, ties to the even one.\<close>

definition round_half_even :: "real \<Rightarrow> nat" where
  "round_half_even x =
     (let f = nat \<lfloor>x\<rfloor>; r = x - of_int \<lfloor>x\<rfloor>
      in if r < 1 / 2 then f else if 1 / 2 < r then f + 1 else if even f then f else f + 1)"

fun halvings :: "nat \<Rightarrow> real \<Rightarrow> nat" where
  "halvings 0 a = 0"
| "halvings (Suc fuel) a = (if a < 2 then 0 else halvings fuel (a / 2) + 1)"

fun doublings :: "nat \<Rightarrow> real \<Rightarrow> nat" where
  "doublings 0 a = 0"
| "doublings (Suc fuel) a = (if 1 \<le> a then 0 else doublings fuel (a * 2) + 1)"

definition float64 :: "real \<Rightarrow> real" where
  "float64 x =
     (if x = 0 then 0
      else if 1 \<le> \<bar>x\<bar> then
        (let e = halvings 1024 \<bar>x\<bar>;
             m = round_half_even (\<bar>x\<bar> * 2 ^ 52 / 2 ^ e)
         in sgn x * (real m * 2 ^ e / 2 ^ 52))
      else
        (let k = doublings 1022 \<bar>x\<bar>;
             m = round_half_even (\<bar>x\<bar> * 2 ^ k * 2 ^ 52)
         in sgn x * (real m / (2 ^ k * 2 ^ 52))))"

text \<open>The float operations \<open>a + b\<close> and \<open>a - b\<close>.\<close>

definition float_add :: "real \<Rightarrow> real \<Rightarrow> real" where
  "float_add a b = float64 (a + b)"

definition float_sub :: "real \<Rightarrow> real \<Rightarrow> real" where
  "float_sub a b = float64 (a - b)"

section \<open>Numeric columns\<close>

definition digit_val :: "char \<Rightarrow> nat" where
  "digit_val c = length (takeWhile (\<lambda>d. d \<noteq> c) ascii_digits)"

definition nat_of_digits :: "string \<Rightarrow> nat" where
  "nat_of_digits s = foldl (\<lambda>a c. 10 * a + digit_val c) 0 s"

text \<open>
  \<open>pd.to_numeric(text, errors='coerce')\<close> on a text made of digits and dots, which is all
  the program passes to it: digits with at most one dot and at least one digit parse to
  the float nearest to their decimal value, anything else is \<open>NaN\<close> (here \<open>None\<close>).
\<close>

definition to_numeric_coerce :: "string \<Rightarrow> real option" where
  "to_numeric_coerce s =
     (let ip = takeWhile is_digit s; rest = dropWhile is_digit s
      in if rest = [] then (if ip = [] then None else Some (float64 (real (nat_of_digits ip))))
         else if hd rest = CHR ''.'' \<and> list_all is_digit (tl rest) \<and> (ip \<noteq> [] \<or> tl rest \<noteq> [])
         then Some (float64 (real (nat_of_digits ip)
                             + real (nat_of_digits (tl rest)) / 10 ^ length (tl rest)))
         else None)"

text \<open>
  One cell of a numeric column:
  \<open>pd.to_numeric(df[col].astype(str).str.replace(r'[^\d.]', '', regex=True),
  errors='coerce').fillna(0.0).astype(float)\<close>.
\<close>

definition clean_numeric :: "pylib \<Rightarrow> cell \<Rightarrow> real" where
  "clean_numeric L c =
     (case to_numeric_coerce (filter (\<lambda>ch. is_digit ch \<or> ch = CHR ''.'') (py_str L c)) of
        None \<Rightarrow> 0
      | Some v \<Rightarrow> v)"

section \<open>Match key\<close>

text \<open>
  \<open>df['match_key'] = df['invoice_no'] + '_' + df['supplier_gstin']\<close>, then \<open>NaN\<close> where
  either text \<open>isin(['', 'None', 'nan', None])\<close>.  Both columns hold text at this point,
  so the \<open>None\<close> entry of the list matches nothing.
\<close>

definition null_texts :: "string list" where
  "null_texts = ['''', ''None'', ''nan'']"

definition make_match_key :: "string \<Rightarrow> string \<Rightarrow> cell" where
  "make_match_key no g =
     (if no \<in> set null_texts \<or> g \<in> set null_texts then NaN
      else Str (no @ ''_'' @ g))"

section \<open>Date columns\<close>

text \<open>
  \<open>df.loc[mask, col] = values\<close>: the cells selected by the mask are replaced, in order,
  by the given values.
\<close>

fun assign_masked :: "(cell \<Rightarrow> bool) \<Rightarrow> cell list \<Rightarrow> cell list \<Rightarrow> cell list" where
  "assign_masked p [] vs = []"
| "assign_masked p (c # cs) vs =
     (if p c then (case vs of [] \<Rightarrow> c # assign_masked p cs []
                   | v # vs' \<Rightarrow> v # assign_masked p cs vs')
      else c # assign_masked p cs vs)"

text \<open>
  The two statements of the date loop.  The second one reads \<open>df.loc[df[col].isna(), col]\<close>
  after the first has overwritten \<open>df[col]\<close>, so the fallback parser receives cells of the
  converted column.
\<close>

definition convert_date_col :: "pylib \<Rightarrow> cell list \<Rightarrow> cell list" where
  "convert_date_col L col =
     (let col1 = to_datetime_dayfirst L col;
          selected = filter isna col1
      in assign_masked isna col1 (to_datetime_mixed L selected))"

section \<open>Data frames and \<open>clean_and_transform_data\<close>\<close>

text \<open>
  A data frame is the list of its columns in order, each a name with its cells; in a
  well-formed frame all columns have the same number of cells.
\<close>

type_synonym dataframe = "(string \<times> cell list) list"

definition nrows :: "dataframe \<Rightarrow> nat" where
  "nrows df = (case df of [] \<Rightarrow> 0 | (n, vs) # rest \<Rightarrow> length vs)"

definition wf_df :: "dataframe \<Rightarrow> bool" where
  "wf_df df = list_all (\<lambda>(n, vs). length vs = nrows df) df"

text \<open>\<open>df.empty\<close>: no columns or no rows.\<close>

definition df_empty :: "dataframe \<Rightarrow> bool" where
  "df_empty df = (df = [] \<or> nrows df = 0)"

definition columns :: "dataframe \<Rightarrow> string list" where
  "columns df = map fst df"

text \<open>\<open>df[name]\<close> for a column name that occurs once.\<close>

definition column :: "dataframe \<Rightarrow> string \<Rightarrow> cell list" where
  "column df name = (case map_of df name of Some vs \<Rightarrow> vs | None \<Rightarrow> [])"

text \<open>\<open>df[name] = values\<close>: replaces the column in place, or appends a new last column.\<close>

definition set_column :: "string \<Rightarrow> cell list \<Rightarrow> dataframe \<Rightarrow> dataframe" where
  "set_column name vs df =
     (if name \<in> set (columns df)
      then map (\<lambda>(n, old). if n = name then (n, vs) else (n, old)) df
      else df @ [(name, vs)])"

definition rename_columns :: "(string \<Rightarrow> string) \<Rightarrow> dataframe \<Rightarrow> dataframe" where
  "rename_columns f df = map (\<lambda>(n, vs). (f n, vs)) df"

text \<open>The table \<open>standard_columns_map\<close>, with the entry added for the Books source.\<close>

definition standard_columns_map :: "string \<Rightarrow> (string \<times> string list) list" where
  "standard_columns_map source =
     [(''invoice_no'', [''invoice no'', ''invoiceno'', ''bill no'', ''billno'', ''invoice'']),
      (''invoice_date'', [''invoice date'', ''invoicedate'', ''bill date'', ''billdate'', ''date'']),
      (''supplier_gstin'', [''supplier gstin'', ''suppliergstin'', ''gstin'', ''party gstin'',
                            ''receiver gstin'']),
      (''taxable_value'', [''taxable value'', ''taxablevalue'', ''value'', ''net amount'']),
      (''cgst'', [''cgst'', ''central tax'']),
      (''sgst'', [''sgst'', ''state tax'']),
      (''igst'', [''igst'', ''integrated tax'']),
      (''total_amount'', [''total amount'', ''totalamount'', ''amount'', ''gross amount'']),
      (''place_of_supply'', [''place of supply'', ''placeofsupply'', ''pos''])]
     @ (if source = ''Books''
        then [(''book_entry_date'', [''book entry date'', ''bookentrydate'', ''entry date'',
                                     ''accounting date''])]
        else [])"

definition std_names :: "string \<Rightarrow> string list" where
  "std_names source = map fst (standard_columns_map source)"

text \<open>The columns of the frame returned for an empty input.\<close>

definition standard_columns :: "string \<Rightarrow> string list" where
  "standard_columns source =
     [''invoice_no'', ''invoice_date'', ''supplier_gstin'', ''taxable_value'',
      ''cgst'', ''sgst'', ''igst'', ''total_amount'', ''place_of_supply'']
     @ (if source = ''Books'' then [''book_entry_date''] else [])
     @ [''match_key'']"

text \<open>
  \<open>df.columns.str.strip().str.lower().str.replace(r'[^a-z0-9]', '', regex=True)\<close> on one
  column name.
\<close>

definition normalize_col_name :: "string \<Rightarrow> string" where
  "normalize_col_name n = filter (\<lambda>c. is_lower c \<or> is_digit c) (lower (strip n))"

text \<open>\<open>s.replace(' ', '').lower()\<close>.\<close>

definition squash_lower :: "string \<Rightarrow> string" where
  "squash_lower s = lower (filter (\<lambda>c. c \<noteq> CHR '' '') s)"

text \<open>
  \<open>reverse_standard_map\<close> as the list of its assignments in the order the loops make
  them; a later assignment to the same key overrides an earlier one.
\<close>

definition reverse_standard_map :: "string \<Rightarrow> (string \<times> string) list" where
  "reverse_standard_map source =
     concat (map (\<lambda>(std_name, variations). map (\<lambda>var. (squash_lower var, std_name)) variations)
                 (standard_columns_map source))"

definition rename_standard :: "string \<Rightarrow> string \<Rightarrow> string" where
  "rename_standard source col =
     (case map_of (rev (reverse_standard_map source)) (squash_lower col) of
        Some std_name \<Rightarrow> std_name
      | None \<Rightarrow> col)"

definition date_cols :: "string \<Rightarrow> string list" where
  "date_cols source = [''invoice_date''] @ (if source = ''Books'' then [''book_entry_date''] else [])"

definition numeric_cols :: "string list" where
  "numeric_cols = [''taxable_value'', ''cgst'', ''sgst'', ''igst'', ''total_amount'']"

definition final_cols_order :: "string \<Rightarrow> string list" where
  "final_cols_order source =
     (if ''match_key'' \<in> set (std_names source) then std_names source
      else std_names source @ [''match_key''])"

text \<open>\<open>fillna('').astype(str)\<close> on one cell.\<close>

definition fillna_str :: "pylib \<Rightarrow> cell \<Rightarrow> cell" where
  "fillna_str L c = Str (if isna c then '''' else py_str L c)"

datatype error = TypeError | DuplicateColumns

text \<open>
  The steps of \<open>clean_and_transform_data\<close>, in the order of the source.

  A non-empty \<open>custom_mapping\<close> makes the first pass of its loop call
  \<open>str.replace(..., regex=True)\<close>, which raises \<open>TypeError\<close>.  When two columns end up
  with the same standard name, \<open>df[name]\<close> is a frame instead of a column and the
  statements that follow raise; both are returned as errors.
\<close>

definition ensure_columns :: "string list \<Rightarrow> nat \<Rightarrow> dataframe \<Rightarrow> dataframe" where
  "ensure_columns names n df =
     fold (\<lambda>std_name d. if std_name \<notin> set (columns d)
                          then d @ [(std_name, replicate n PyNone)] else d) names df"

definition convert_dates :: "pylib \<Rightarrow> string \<Rightarrow> nat \<Rightarrow> dataframe \<Rightarrow> dataframe" where
  "convert_dates L source n df =
     fold (\<lambda>col d. if col \<in> set (columns d)
                    then set_column col (convert_date_col L (column d col)) d
                    else set_column col (replicate n NaT) d) (date_cols source) df"

definition convert_numerics :: "pylib \<Rightarrow> nat \<Rightarrow> dataframe \<Rightarrow> dataframe" where
  "convert_numerics L n df =
     fold (\<lambda>col d. if col \<in> set (columns d)
                    then set_column col (map (\<lambda>c. FloatC (clean_numeric L c)) (column d col)) d
                    else set_column col (replicate n (FloatC 0)) d) numeric_cols df"

definition clean_gstin_column :: "pylib \<Rightarrow> bool \<Rightarrow> dataframe \<Rightarrow> dataframe" where
  "clean_gstin_column L auto_clean df =
     (if ''supplier_gstin'' \<in> set (columns df) \<and> auto_clean
      then set_column ''supplier_gstin''
             (map (\<lambda>c. Str (fst (clean_gstin L c))) (column df ''supplier_gstin'')) df
      else set_column ''supplier_gstin''
             (map (fillna_str L) (column df ''supplier_gstin'')) df)"

definition add_match_key :: "pylib \<Rightarrow> dataframe \<Rightarrow> dataframe" where
  "add_match_key L df =
     (let d1 = set_column ''invoice_no'' (map (\<lambda>c. Str (py_str L c)) (column df ''invoice_no'')) df;
          d2 = set_column ''supplier_gstin''
                 (map (\<lambda>c. Str (py_str L c)) (column d1 ''supplier_gstin'')) d1
      in set_column ''match_key''
           (map (\<lambda>(a, b). make_match_key (py_str L a) (py_str L b))
                (zip (column d2 ''invoice_no'') (column d2 ''supplier_gstin''))) d2)"

definition fill_place_of_supply :: "pylib \<Rightarrow> nat \<Rightarrow> dataframe \<Rightarrow> dataframe" where
  "fill_place_of_supply L n df =
     (if ''place_of_supply'' \<in> set (columns df)
      then set_column ''place_of_supply'' (map (fillna_str L) (column df ''place_of_supply'')) df
      else set_column ''place_of_supply'' (replicate n (Str '''')) df)"

definition select_columns :: "string list \<Rightarrow> dataframe \<Rightarrow> dataframe" where
  "select_columns names df = map (\<lambda>n. (n, column df n)) (filter (\<lambda>n. n \<in> set (columns df)) names)"

definition clean_and_transform_data ::
    "pylib \<Rightarrow> bool \<Rightarrow> dataframe \<Rightarrow> string \<Rightarrow> (string \<times> string) list \<Rightarrow> error + dataframe" where
  "clean_and_transform_data L auto_clean df source custom_mapping =
     (if df_empty df then Inr (map (\<lambda>n. (n, [])) (standard_columns source))
      else if custom_mapping \<noteq> [] then Inl TypeError
      else
        let n = nrows df;
            d1 = rename_columns normalize_col_name df;
            d2 = rename_columns (rename_standard source) d1;
            d3 = ensure_columns (std_names source) n d2
        in if list_ex (\<lambda>std_name. 1 < count_list (columns d3) std_name) (std_names source)
           then Inl DuplicateColumns
           else
             let d4 = convert_dates L source n d3;
                 d5 = convert_numerics L n d4;
                 d6 = clean_gstin_column L auto_clean d5;
                 d7 = add_match_key L d6;
                 d8 = fill_place_of_supply L n d7
             in Inr (select_columns (final_cols_order source) d8))"

section \<open>Settings: \<open>save_settings\<close>\<close>

record settings =
  date_tolerance :: int
  amount_tolerance :: real
  auto_clean_gstin :: bool

text \<open>The values set by the constructor.\<close>

definition default_settings :: settings where
  "default_settings = \<lparr>date_tolerance = 3, amount_tolerance = 1, auto_clean_gstin = True\<rparr>"

text \<open>
  What \<open>save_settings\<close> tells the user: the success message, or the error message built
  from the \<open>ValueError\<close>.
\<close>

datatype report = Saved | Invalid string

text \<open>\<open>str.isdigit()\<close>: a non-empty text of digits.\<close>

definition isdigit :: "string \<Rightarrow> bool" where
  "isdigit s = (s \<noteq> [] \<and> list_all is_digit s)"

text \<open>
  The statements of \<open>save_settings\<close> in order: the date tolerance is assigned before the
  amount tolerance is read.
\<close>

definition save_settings ::
    "pylib \<Rightarrow> settings \<Rightarrow> string \<Rightarrow> string \<Rightarrow> int \<Rightarrow> settings \<times> report" where
  "save_settings L S date_tol_str amount_tol_str auto_clean_var =
     (if \<not> isdigit date_tol_str
      then (S, Invalid ''Date tolerance must be a whole number.'')
      else
        let S1 = S\<lparr>date_tolerance := max 0 (int (nat_of_digits date_tol_str))\<rparr>
        in case py_float L amount_tol_str of
             None \<Rightarrow> (S1, Invalid ''Amount/Tax tolerance must be a number.'')
           | Some v \<Rightarrow>
               (S1\<lparr>amount_tolerance := max 0 v, auto_clean_gstin := (auto_clean_var \<noteq> 0)\<rparr>,
                Saved))"

section \<open>Reconciliation: \<open>perform_reconciliation\<close>\<close>

text \<open>
  A row of a normalized ledger.  The date is a timestamp in nanoseconds or missing
  (\<open>NaT\<close>), the match key a text or missing (\<open>NaN\<close>); amounts are floats.
\<close>

record invoice =
  invoice_no :: string
  invoice_date :: "int option"
  supplier_gstin :: string
  taxable_value :: real
  cgst :: real
  sgst :: real
  igst :: real
  total_amount :: real
  place_of_supply :: string
  match_key :: "string option"

text \<open>
  A row of the result: the entries \<open>Invoice No\<close>, \<open>Source\<close>, \<open>Issue Type\<close>,
  \<open>GSTR-2A Date\<close>, \<open>Books Date\<close>, \<open>GSTR-2A GSTIN\<close>, \<open>Books GSTIN\<close>, \<open>Amount Diff\<close>,
  \<open>Tax Diff\<close> and \<open>Details\<close>.
\<close>

record discrepancy =
  inv_no :: string
  src :: string
  issue_type :: string
  gstr2a_date :: "int option"
  books_date :: "int option"
  gstr2a_gstin :: string
  books_gstin :: string
  amount_diff :: real
  tax_diff :: real
  details :: string

fun join :: "string \<Rightarrow> string list \<Rightarrow> string" where
  "join sep [] = []"
| "join sep [x] = x"
| "join sep (x # y # ys) = x @ sep @ join sep (y # ys)"

text \<open>The rupee sign U+20B9 in UTF-8.\<close>

definition rupee :: string where
  "rupee = [CHR 0xE2, CHR 0x82, CHR 0xB9]"

text \<open>\<open>dropna(subset=['match_key'])\<close>.\<close>

definition dropna_match_key :: "invoice list \<Rightarrow> invoice list" where
  "dropna_match_key rows = filter (\<lambda>r. match_key r \<noteq> None) rows"

text \<open>The rows selected by \<open>duplicated(subset=['match_key'], keep=False)\<close>.\<close>

definition duplicated_keep_false :: "invoice list \<Rightarrow> invoice list" where
  "duplicated_keep_false rows =
     filter (\<lambda>r. 1 < length (filter (\<lambda>r'. match_key r' = match_key r) rows)) rows"

text \<open>\<open>drop_duplicates(subset=['match_key'], keep='first')\<close>.\<close>

fun drop_duplicates_seen :: "string option list \<Rightarrow> invoice list \<Rightarrow> invoice list" where
  "drop_duplicates_seen seen [] = []"
| "drop_duplicates_seen seen (r # rs) =
     (if match_key r \<in> set seen then drop_duplicates_seen seen rs
      else r # drop_duplicates_seen (match_key r # seen) rs)"

definition drop_duplicates_first :: "invoice list \<Rightarrow> invoice list" where
  "drop_duplicates_first rows = drop_duplicates_seen [] rows"

text \<open>
  \<open>frame[frame['match_key'] == key].iloc[0]\<close>.  The key is always taken from the same
  frame, so a row is found.
\<close>

definition first_with_key :: "string option \<Rightarrow> invoice list \<Rightarrow> invoice option" where
  "first_with_key key rows = find (\<lambda>r. match_key r = key) rows"

definition duplicate_gstr2a_row :: "invoice \<Rightarrow> discrepancy" where
  "duplicate_gstr2a_row row =
     \<lparr>inv_no = invoice_no row, src = ''GSTR-2A'', issue_type = ''Duplicate in GSTR-2A'',
      gstr2a_date = invoice_date row, books_date = None,
      gstr2a_gstin = supplier_gstin row, books_gstin = '''',
      amount_diff = 0, tax_diff = 0,
      details = ''Duplicate invoice found in GSTR-2A data.''\<rparr>"

definition duplicate_books_row :: "invoice \<Rightarrow> discrepancy" where
  "duplicate_books_row row =
     \<lparr>inv_no = invoice_no row, src = ''Books'', issue_type = ''Duplicate in Books'',
      gstr2a_date = None, books_date = invoice_date row,
      gstr2a_gstin = '''', books_gstin = supplier_gstin row,
      amount_diff = 0, tax_diff = 0,
      details = ''Duplicate invoice found in Books data.''\<rparr>"

text \<open>
  \<open>row.get('cgst', 0.0) + row.get('sgst', 0.0) + row.get('igst', 0.0)\<close>: two float
  additions, from left to right.
\<close>

definition tax_total :: "invoice \<Rightarrow> real" where
  "tax_total row = float_add (float_add (cgst row) (sgst row)) (igst row)"

definition missing_in_books_row :: "invoice \<Rightarrow> discrepancy" where
  "missing_in_books_row row =
     \<lparr>inv_no = invoice_no row, src = ''GSTR-2A'', issue_type = ''Missing in Books'',
      gstr2a_date = invoice_date row, books_date = None,
      gstr2a_gstin = supplier_gstin row, books_gstin = '''',
      amount_diff = total_amount row, tax_diff = tax_total row,
      details = ''Invoice found in GSTR-2A but not in Books.''\<rparr>"

definition missing_in_gstr2a_row :: "invoice \<Rightarrow> discrepancy" where
  "missing_in_gstr2a_row row =
     \<lparr>inv_no = invoice_no row, src = ''Books'', issue_type = ''Missing in GSTR-2A'',
      gstr2a_date = None, books_date = invoice_date row,
      gstr2a_gstin = '''', books_gstin = supplier_gstin row,
      amount_diff = - total_amount row, tax_diff = - tax_total row,
      details = ''Invoice found in Books but not in GSTR-2A.''\<rparr>"

text \<open>\<open>(a - b).days\<close> of two timestamps: whole days, rounded down.\<close>

definition day_ns :: int where
  "day_ns = 86400000000000"

definition timedelta_days :: "int \<Rightarrow> int \<Rightarrow> int" where
  "timedelta_days a b = (a - b) div day_ns"

text \<open>
  The date comparison.  Both dates are timestamps when present, so the conversion inside
  the \<open>try\<close> returns them unchanged and its failure branches are not taken.
\<close>

definition date_issues :: "settings \<Rightarrow> int option \<Rightarrow> int option \<Rightarrow> string list" where
  "date_issues S gstr_date book_date =
     (case (gstr_date, book_date) of
        (Some g, Some b) \<Rightarrow>
          (let date_diff = timedelta_days g b
           in if \<bar>date_diff\<bar> > date_tolerance S
              then [''Date diff: '' @ str_of_int \<bar>date_diff\<bar> @ '' days'']
              else [])
      | (Some g, None) \<Rightarrow> [''One invoice date missing'']
      | (None, Some b) \<Rightarrow> [''One invoice date missing'']
      | (None, None) \<Rightarrow> [])"

definition gstin_issues :: "string \<Rightarrow> string \<Rightarrow> string list" where
  "gstin_issues gstr_gstin book_gstin =
     (if gstr_gstin \<noteq> book_gstin then [''GSTIN mismatch''] else [])"

definition amount_issues :: "pylib \<Rightarrow> settings \<Rightarrow> real \<Rightarrow> string list" where
  "amount_issues L S amount_diff' =
     (if \<bar>amount_diff'\<bar> > amount_tolerance S
      then [''Amount diff: '' @ rupee @ format_2f L amount_diff']
      else [])"

definition tax_issues :: "pylib \<Rightarrow> settings \<Rightarrow> real \<Rightarrow> string list" where
  "tax_issues L S tax_diff' =
     (if \<bar>tax_diff'\<bar> > amount_tolerance S
      then [''Tax diff: '' @ rupee @ format_2f L tax_diff']
      else [])"

text \<open>
  \<open>amount_diff = gstr_total - book_total\<close> and \<open>tax_diff = gstr_tax - book_tax\<close>: float
  subtractions.
\<close>

definition amount_difference :: "invoice \<Rightarrow> invoice \<Rightarrow> real" where
  "amount_difference gstr_row book_row = float_sub (total_amount gstr_row) (total_amount book_row)"

definition tax_difference :: "invoice \<Rightarrow> invoice \<Rightarrow> real" where
  "tax_difference gstr_row book_row = float_sub (tax_total gstr_row) (tax_total book_row)"

definition row_issues :: "pylib \<Rightarrow> settings \<Rightarrow> invoice \<Rightarrow> invoice \<Rightarrow> string list" where
  "row_issues L S gstr_row book_row =
     date_issues S (invoice_date gstr_row) (invoice_date book_row)
     @ gstin_issues (upper (strip (supplier_gstin gstr_row))) (upper (strip (supplier_gstin book_row)))
     @ amount_issues L S (amount_difference gstr_row book_row)
     @ tax_issues L S (tax_difference gstr_row book_row)"

text \<open>The body of the loop over the common keys: no row, or one row.\<close>

definition compare_rows :: "pylib \<Rightarrow> settings \<Rightarrow> invoice \<Rightarrow> invoice \<Rightarrow> discrepancy list" where
  "compare_rows L S gstr_row book_row =
     (let issues = row_issues L S gstr_row book_row
      in if issues \<noteq> []
         then [\<lparr>inv_no = invoice_no gstr_row, src = ''Both'', issue_type = join '', '' issues,
                gstr2a_date = invoice_date gstr_row, books_date = invoice_date book_row,
                gstr2a_gstin = upper (strip (supplier_gstin gstr_row)),
                books_gstin = upper (strip (supplier_gstin book_row)),
                amount_diff = amount_difference gstr_row book_row,
                tax_diff = tax_difference gstr_row book_row,
                details = join ''; '' issues\<rparr>]
         else [])"

text \<open>
  The keys of a frame as \<open>set(frame['match_key'])\<close>.  A Python set has no fixed order of
  iteration; the model goes through the keys in the order of their rows.
\<close>

definition key_set :: "invoice list \<Rightarrow> string option list" where
  "key_set rows = remdups (map match_key rows)"

definition missing_rows ::
    "(invoice \<Rightarrow> discrepancy) \<Rightarrow> string option list \<Rightarrow> invoice list \<Rightarrow> discrepancy list" where
  "missing_rows mk keys unique_rows =
     concat (map (\<lambda>key. case first_with_key key unique_rows of
                           Some row \<Rightarrow> [mk row] | None \<Rightarrow> []) keys)"

definition common_rows ::
    "pylib \<Rightarrow> settings \<Rightarrow> string option list \<Rightarrow> invoice list \<Rightarrow> invoice list \<Rightarrow> discrepancy list" where
  "common_rows L S keys gstr_unique books_unique =
     concat (map (\<lambda>key. case (first_with_key key gstr_unique, first_with_key key books_unique) of
                           (Some gstr_row, Some book_row) \<Rightarrow> compare_rows L S gstr_row book_row
                         | _ \<Rightarrow> []) keys)"

definition perform_reconciliation ::
    "pylib \<Rightarrow> settings \<Rightarrow> invoice list \<Rightarrow> invoice list \<Rightarrow> discrepancy list" where
  "perform_reconciliation L S gstr2a_data books_data =
     (let gstr_data_filtered = dropna_match_key gstr2a_data;
          books_data_filtered = dropna_match_key books_data;
          gstr_duplicates = duplicated_keep_false gstr_data_filtered;
          books_duplicates = duplicated_keep_false books_data_filtered;
          gstr_data_unique = drop_duplicates_first gstr_data_filtered;
          books_data_unique = drop_duplicates_first books_data_filtered;
          gstr_keys = key_set gstr_data_unique;
          books_keys = key_set books_data_unique;
          missing_in_books_keys = filter (\<lambda>k. k \<notin> set books_keys) gstr_keys;
          missing_in_gstr2a_keys = filter (\<lambda>k. k \<notin> set gstr_keys) books_keys;
          common_keys = filter (\<lambda>k. k \<in> set books_keys) gstr_keys
      in map duplicate_gstr2a_row gstr_duplicates
         @ map duplicate_books_row books_duplicates
         @ missing_rows missing_in_books_row missing_in_books_keys gstr_data_unique
         @ missing_rows missing_in_gstr2a_row missing_in_gstr2a_keys books_data_unique
         @ common_rows L S common_keys gstr_data_unique books_data_unique)"

section \<open>Summary: \<open>get_summary_text\<close>\<close>

text \<open>\<open>re.search\<close> of a literal text.\<close>

primrec contains :: "string \<Rightarrow> string \<Rightarrow> bool" where
  "contains pat [] = (pat = [])"
| "contains pat (c # cs) = (take (length pat) (c # cs) = pat \<or> contains pat cs)"

text \<open>
  \<open>Series.str.contains(pattern, case=False, na=False)\<close> on one text, for a pattern that
  is a literal or an alternation of literals.
\<close>

definition str_contains :: "string list \<Rightarrow> string \<Rightarrow> bool" where
  "str_contains alternatives s = list_ex (\<lambda>pat. contains (lower pat) (lower s)) alternatives"

definition count_issue :: "string list \<Rightarrow> discrepancy list \<Rightarrow> nat" where
  "count_issue alternatives results =
     (if results \<noteq> []
      then length (filter (\<lambda>d. str_contains alternatives (issue_type d)) results)
      else 0)"

text \<open>
  The values that \<open>get_summary_text\<close> computes and prints.  The two totals are the sums
  of a column; the rounding of the float additions inside \<open>Series.sum\<close>, whose order is
  the library's, is not modelled.
\<close>

record summary =
  total_discrepancies :: nat
  missing_in_books :: nat
  missing_in_gstr2a :: nat
  date_mismatch :: nat
  amount_tax_mismatch :: nat
  gstin_mismatch :: nat
  duplicates :: nat
  total_amount_diff :: real
  total_tax_diff :: real
  date_tolerance_used :: int
  amount_tolerance_used :: real

definition get_summary_text :: "settings \<Rightarrow> discrepancy list \<Rightarrow> summary" where
  "get_summary_text S results =
     \<lparr>total_discrepancies = length results,
      missing_in_books = count_issue [''Missing in Books''] results,
      missing_in_gstr2a = count_issue [''Missing in GSTR-2A''] results,
      date_mismatch = count_issue [''Date diff''] results,
      amount_tax_mismatch = count_issue [''Amount diff'', ''Tax diff''] results,
      gstin_mismatch = count_issue [''GSTIN mismatch''] results,
      duplicates = count_issue [''Duplicate''] results,
      total_amount_diff = (if results \<noteq> [] then sum_list (map amount_diff results) else 0),
      total_tax_diff = (if results \<noteq> [] then sum_list (map tax_diff results) else 0),
      date_tolerance_used = date_tolerance S,
      amount_tolerance_used = amount_tolerance S\<rparr>"

section \<open>A model of the library functions\<close>

text \<open>
  The library functions are parameters of the model; the examples below need them at
  concrete inputs.  \<open>py_model\<close> supplies them for decimal numbers and for dates written
  \<open>DD/MM/YYYY\<close> or \<open>YYYY-MM-DD\<close>.

  \<open>py_float_str\<close> is \<open>str(x)\<close> of a float: the shortest decimal digit string, of at most
  17 digits, that reads back as the same float, written in positional notation when the
  decimal exponent is between \<open>-4\<close> and \<open>16\<close> and in exponent notation otherwise.
\<close>

fun int_digits :: "nat \<Rightarrow> real \<Rightarrow> nat" where
  "int_digits 0 a = 0"
| "int_digits (Suc fuel) a = (if a < 1 then 0 else int_digits fuel (a / 10) + 1)"

fun leading_zeros :: "nat \<Rightarrow> real \<Rightarrow> nat" where
  "leading_zeros 0 a = 0"
| "leading_zeros (Suc fuel) a = (if 1 / 10 \<le> a then 0 else leading_zeros fuel (a * 10) + 1)"

text \<open>The position of the decimal point: \<open>10^(p-1) \<le> a < 10^p\<close>.\<close>

definition decimal_point :: "real \<Rightarrow> int" where
  "decimal_point a = (if 1 \<le> a then int (int_digits 400 a) else - int (leading_zeros 400 a))"

definition scale10 :: "real \<Rightarrow> int \<Rightarrow> real" where
  "scale10 x n = (if 0 \<le> n then x * 10 ^ nat n else x / 10 ^ nat (- n))"

text \<open>
  The digits of \<open>x\<close> rounded to \<open>k\<close> significant digits, for the least \<open>k\<close> from the given
  one on whose digits read back as \<open>x\<close>; 17 digits always do.
\<close>

fun shortest_digits :: "nat \<Rightarrow> nat \<Rightarrow> real \<Rightarrow> int \<Rightarrow> nat \<times> nat" where
  "shortest_digits 0 k x p = (round_half_even (scale10 x (int k - p)), k)"
| "shortest_digits (Suc fuel) k x p =
     (let n = round_half_even (scale10 x (int k - p))
      in if float64 (scale10 (real n) (p - int k)) = x then (n, k)
         else shortest_digits fuel (k + 1) x p)"

definition strip_trailing_zeros :: "string \<Rightarrow> string" where
  "strip_trailing_zeros s = rev (dropWhile (\<lambda>c. c = CHR ''0'') (rev s))"

definition exp_text :: "nat \<Rightarrow> string" where
  "exp_text e = (if e < 10 then CHR ''0'' # str_of_nat e else str_of_nat e)"

definition sci_text :: "string \<Rightarrow> string" where
  "sci_text ds = (case ds of [] \<Rightarrow> []
                  | d # rest \<Rightarrow> (if rest = [] then [d] else d # CHR ''.'' # rest))"

definition py_float_pos :: "real \<Rightarrow> string" where
  "py_float_pos x =
     (let p = decimal_point x;
          (n, k) = shortest_digits 16 1 x p;
          ds = strip_trailing_zeros (str_of_nat n);
          decpt = p + int (length (str_of_nat n)) - int k
      in if - 4 < decpt \<and> decpt \<le> 16 then
           (if decpt \<le> 0 then ''0.'' @ replicate (nat (- decpt)) (CHR ''0'') @ ds
            else if int (length ds) \<le> decpt
            then ds @ replicate (nat decpt - length ds) (CHR ''0'') @ ''.0''
            else take (nat decpt) ds @ ''.'' @ drop (nat decpt) ds)
         else sci_text ds @ (if decpt - 1 < 0 then ''e-'' else ''e+'')
              @ exp_text (nat \<bar>decpt - 1\<bar>))"

definition py_float_str :: "real \<Rightarrow> string" where
  "py_float_str x = (if x = 0 then ''0.0''
                     else if x < 0 then CHR ''-'' # py_float_pos (- x)
                     else py_float_pos x)"

text \<open>\<open>f"{x:.2f}"\<close>: two decimals, ties to the even neighbour.\<close>

definition py_format_2f :: "real \<Rightarrow> string" where
  "py_format_2f x =
     (let n = round_half_even (\<bar>x\<bar> * 100)
      in (if x < 0 then ''-'' else '''')
         @ str_of_nat (n div 100) @ ''.'' @ [digit_char (n mod 100 div 10), digit_char (n mod 10)])"

text \<open>\<open>float(s)\<close> on a decimal literal with an optional sign: the nearest float.\<close>

definition py_float_of_str :: "string \<Rightarrow> real option" where
  "py_float_of_str s =
     (case strip s of
        [] \<Rightarrow> None
      | c # cs \<Rightarrow>
          if c = CHR ''-'' then map_option uminus (to_numeric_coerce cs)
          else if c = CHR ''+'' then to_numeric_coerce cs
          else to_numeric_coerce (c # cs))"

text \<open>Days since 1970-01-01 of a calendar date, and back.\<close>

definition days_from_civil :: "int \<Rightarrow> int \<Rightarrow> int \<Rightarrow> int" where
  "days_from_civil y m d =
     (let y' = (if m \<le> 2 then y - 1 else y);
          era = y' div 400;
          yoe = y' - era * 400;
          doy = (153 * (if m > 2 then m - 3 else m + 9) + 2) div 5 + d - 1;
          doe = yoe * 365 + yoe div 4 - yoe div 100 + doy
      in era * 146097 + doe - 719468)"

definition civil_from_days :: "int \<Rightarrow> int \<times> int \<times> int" where
  "civil_from_days z0 =
     (let z = z0 + 719468;
          era = z div 146097;
          doe = z - era * 146097;
          yoe = (doe - doe div 1460 + doe div 36524 - doe div 146096) div 365;
          doy = doe - (365 * yoe + yoe div 4 - yoe div 100);
          mp = (5 * doy + 2) div 153;
          d = doy - (153 * mp + 2) div 5 + 1;
          m = (if mp < 10 then mp + 3 else mp - 9);
          y = yoe + era * 400
      in (if m \<le> 2 then y + 1 else y, m, d))"

definition days_in_month :: "int \<Rightarrow> int \<Rightarrow> int" where
  "days_in_month y m =
     (if m = 2 then (if y mod 4 = 0 \<and> (y mod 100 \<noteq> 0 \<or> y mod 400 = 0) then 29 else 28)
      else if m \<in> {4, 6, 9, 11} then 30 else 31)"

definition timestamp_of_date :: "int \<Rightarrow> int \<Rightarrow> int \<Rightarrow> cell" where
  "timestamp_of_date y m d =
     (if 1 \<le> m \<and> m \<le> 12 \<and> 1 \<le> d \<and> d \<le> days_in_month y m
      then Ts (days_from_civil y m d * day_ns) else NaT)"

definition zero_pad :: "nat \<Rightarrow> string \<Rightarrow> string" where
  "zero_pad n s = replicate (n - length s) (CHR ''0'') @ s"

text \<open>\<open>str(t)\<close> of a timestamp on a whole second.\<close>

definition py_ts_str :: "int \<Rightarrow> string" where
  "py_ts_str t =
     (let (y, m, d) = civil_from_days (t div day_ns);
          secs = (t mod day_ns) div 1000000000
      in str_of_int y @ ''-'' @ zero_pad 2 (str_of_int m) @ ''-'' @ zero_pad 2 (str_of_int d)
         @ '' '' @ zero_pad 2 (str_of_int (secs div 3600))
         @ '':'' @ zero_pad 2 (str_of_int (secs mod 3600 div 60))
         @ '':'' @ zero_pad 2 (str_of_int (secs mod 60)))"

text \<open>
  The day-first parser on a column whose texts are written \<open>DD/MM/YYYY\<close>: such a text
  becomes its timestamp, a timestamp stays, everything else becomes \<open>NaT\<close>.
\<close>

definition parse_dmy :: "string \<Rightarrow> cell" where
  "parse_dmy s =
     (if length s = 10 \<and> s ! 2 = CHR ''/'' \<and> s ! 5 = CHR ''/''
         \<and> list_all is_digit (take 2 s @ take 2 (drop 3 s) @ drop 6 s)
      then timestamp_of_date (int (nat_of_digits (drop 6 s)))
                             (int (nat_of_digits (take 2 (drop 3 s))))
                             (int (nat_of_digits (take 2 s)))
      else NaT)"

definition parse_iso :: "string \<Rightarrow> cell" where
  "parse_iso s =
     (if length s = 10 \<and> s ! 4 = CHR ''-'' \<and> s ! 7 = CHR ''-''
         \<and> list_all is_digit (take 4 s @ take 2 (drop 5 s) @ drop 8 s)
      then timestamp_of_date (int (nat_of_digits (take 4 s)))
                             (int (nat_of_digits (take 2 (drop 5 s))))
                             (int (nat_of_digits (drop 8 s)))
      else NaT)"

fun parse_cell :: "(string \<Rightarrow> cell) \<Rightarrow> cell \<Rightarrow> cell" where
  "parse_cell f (Ts t) = Ts t"
| "parse_cell f (Str s) = f s"
| "parse_cell f c = NaT"

text \<open>
  The permissive parser: it reads both notations (and a timestamp stays, everything else
  becomes \<open>NaT\<close>).
\<close>

definition parse_dmy_or_iso :: "string \<Rightarrow> cell" where
  "parse_dmy_or_iso s = (case parse_iso s of NaT \<Rightarrow> parse_dmy s | c \<Rightarrow> c)"

definition py_model :: pylib where
  "py_model =
     \<lparr>float_str = py_float_str, ts_str = py_ts_str, format_2f = py_format_2f,
      py_float = py_float_of_str,
      to_datetime_dayfirst = map (parse_cell parse_dmy),
      to_datetime_mixed = map (parse_cell parse_dmy_or_iso)\<rparr>"

section \<open>Notions used to state the properties\<close>

text \<open>An issue list carries a flag when one of its entries starts with the flag's tag.\<close>

definition flagged :: "string \<Rightarrow> string list \<Rightarrow> bool" where
  "flagged tag issues = list_ex (\<lambda>i. take (length tag) i = tag) issues"

text \<open>The number of rows of a ledger that carry a given match key.\<close>

definition key_count :: "string \<Rightarrow> invoice list \<Rightarrow> nat" where
  "key_count k rows = length (filter (\<lambda>r. match_key r = Some k) rows)"

text \<open>
  The first row of each match key of the first ledger whose key does not occur in the
  second ledger.
\<close>

definition only_in :: "invoice list \<Rightarrow> invoice list \<Rightarrow> invoice list" where
  "only_in xs ys =
     filter (\<lambda>r. match_key r \<notin> set (map match_key (dropna_match_key ys)))
            (drop_duplicates_first (dropna_match_key xs))"

text \<open>The four kinds of result rows that are not comparisons of a common key.\<close>

definition is_duplicate_gstr2a :: "discrepancy \<Rightarrow> bool" where
  "is_duplicate_gstr2a d = (src d = ''GSTR-2A'' \<and> issue_type d = ''Duplicate in GSTR-2A'')"

definition is_duplicate_books :: "discrepancy \<Rightarrow> bool" where
  "is_duplicate_books d = (src d = ''Books'' \<and> issue_type d = ''Duplicate in Books'')"

definition is_missing_in_books :: "discrepancy \<Rightarrow> bool" where
  "is_missing_in_books d = (src d = ''GSTR-2A'' \<and> issue_type d = ''Missing in Books'')"

definition is_missing_in_gstr2a :: "discrepancy \<Rightarrow> bool" where
  "is_missing_in_gstr2a d = (src d = ''Books'' \<and> issue_type d = ''Missing in GSTR-2A'')"

text \<open>
  A result row seen from the other side: source, missing-in tag and detail text
  exchanged, the two date and identifier entries exchanged, both differences negated.
\<close>

definition swap_sides :: "discrepancy \<Rightarrow> discrepancy" where
  "swap_sides d =
     \<lparr>inv_no = inv_no d,
      src = (if src d = ''GSTR-2A'' then ''Books''
             else if src d = ''Books'' then ''GSTR-2A'' else src d),
      issue_type = (if issue_type d = ''Missing in Books'' then ''Missing in GSTR-2A''
                    else if issue_type d = ''Missing in GSTR-2A'' then ''Missing in Books''
                    else issue_type d),
      gstr2a_date = books_date d, books_date = gstr2a_date d,
      gstr2a_gstin = books_gstin d, books_gstin = gstr2a_gstin d,
      amount_diff = - amount_diff d, tax_diff = - tax_diff d,
      details = (if details d = ''Invoice found in GSTR-2A but not in Books.''
                 then ''Invoice found in Books but not in GSTR-2A.''
                 else if details d = ''Invoice found in Books but not in GSTR-2A.''
                 then ''Invoice found in GSTR-2A but not in Books.''
                 else details d)\<rparr>"

text \<open>The six categories counted by the summary, each with its search patterns.\<close>

definition categories :: "string list list" where
  "categories = [[''Missing in Books''], [''Missing in GSTR-2A''], [''Date diff''],
                 [''Amount diff'', ''Tax diff''], [''GSTIN mismatch''], [''Duplicate'']]"

definition matching_categories :: "discrepancy \<Rightarrow> nat" where
  "matching_categories d =
     length (filter (\<lambda>alternatives. str_contains alternatives (issue_type d)) categories)"

text \<open>
  The pairs of rows compared on a common key: the first row of every defined key of the
  GSTR-2A ledger, with the first row of the Books ledger that carries the same key.
\<close>

definition matched_pairs :: "invoice list \<Rightarrow> invoice list \<Rightarrow> (invoice \<times> invoice) list" where
  "matched_pairs gstr2a_data books_data =
     concat (map (\<lambda>g. case find (\<lambda>b. match_key b = match_key g) books_data of
                          Some b \<Rightarrow> [(g, b)] | None \<Rightarrow> [])
                 (drop_duplicates_first (dropna_match_key gstr2a_data)))"

text \<open>
  The rows of a normalized frame as \<open>perform_reconciliation\<close> reads them from its
  columns: texts, timestamps, floats, and the match key when it is not \<open>NaN\<close>.
\<close>

definition text_of :: "cell \<Rightarrow> string" where
  "text_of c = (case c of Str s \<Rightarrow> s | _ \<Rightarrow> [])"

definition date_of :: "cell \<Rightarrow> int option" where
  "date_of c = (case c of Ts t \<Rightarrow> Some t | _ \<Rightarrow> None)"

definition number_of :: "cell \<Rightarrow> real" where
  "number_of c = (case c of FloatC v \<Rightarrow> v | _ \<Rightarrow> 0)"

definition key_of :: "cell \<Rightarrow> string option" where
  "key_of c = (case c of Str s \<Rightarrow> Some s | _ \<Rightarrow> None)"

definition frame_row :: "dataframe \<Rightarrow> nat \<Rightarrow> invoice" where
  "frame_row df i =
     \<lparr>invoice_no = text_of (column df ''invoice_no'' ! i),
      invoice_date = date_of (column df ''invoice_date'' ! i),
      supplier_gstin = text_of (column df ''supplier_gstin'' ! i),
      taxable_value = number_of (column df ''taxable_value'' ! i),
      cgst = number_of (column df ''cgst'' ! i),
      sgst = number_of (column df ''sgst'' ! i),
      igst = number_of (column df ''igst'' ! i),
      total_amount = number_of (column df ''total_amount'' ! i),
      place_of_supply = text_of (column df ''place_of_supply'' ! i),
      match_key = key_of (column df ''match_key'' ! i)\<rparr>"

definition frame_rows :: "dataframe \<Rightarrow> invoice list" where
  "frame_rows df = map (frame_row df) [0..<nrows df]"

text \<open>A cell that holds a float that is not negative.\<close>

fun nonneg_float :: "cell \<Rightarrow> bool" where
  "nonneg_float (FloatC v) = (0 \<le> v)"
| "nonneg_float _ = False"

text \<open>
  The frame on which the conversions of \<open>clean_and_transform_data\<close> work: the input with
  its column names normalized and renamed, and the absent standard columns added.
\<close>

definition standardized :: "string \<Rightarrow> dataframe \<Rightarrow> dataframe" where
  "standardized source df =
     ensure_columns (std_names source) (nrows df)
       (rename_columns (rename_standard source) (rename_columns normalize_col_name df))"

text \<open>The identifier cell that \<open>clean_and_transform_data\<close> stores, for either setting.\<close>

definition gstin_cell :: "pylib \<Rightarrow> bool \<Rightarrow> cell \<Rightarrow> cell" where
  "gstin_cell L auto_clean c = (if auto_clean then Str (fst (clean_gstin L c)) else fillna_str L c)"

text \<open>
  The columns of the result of \<open>clean_and_transform_data\<close>, each as a function of the
  columns of the standardized frame.
\<close>

definition normalized_column ::
    "pylib \<Rightarrow> bool \<Rightarrow> (string \<Rightarrow> cell list) \<Rightarrow> string \<Rightarrow> cell list" where
  "normalized_column L auto_clean col name =
     (if name = ''invoice_no'' then map (\<lambda>c. Str (py_str L c)) (col ''invoice_no'')
      else if name = ''invoice_date'' \<or> name = ''book_entry_date'' then convert_date_col L (col name)
      else if name = ''supplier_gstin'' then map (gstin_cell L auto_clean) (col ''supplier_gstin'')
      else if name \<in> set numeric_cols then map (\<lambda>c. FloatC (clean_numeric L c)) (col name)
      else if name = ''place_of_supply'' then map (fillna_str L) (col ''place_of_supply'')
      else if name = ''match_key''
      then map (\<lambda>(a, b). make_match_key (py_str L a) (py_str L b))
               (zip (map (\<lambda>c. Str (py_str L c)) (col ''invoice_no''))
                    (map (gstin_cell L auto_clean) (col ''supplier_gstin'')))
      else col name)"

text \<open>
  What is assumed of \<open>pd.to_datetime(..., errors='coerce')\<close> where a property depends on
  it: the result has one timestamp or \<open>NaT\<close> for every cell, and a column of timestamps
  and \<open>NaT\<close> is returned as it is.
\<close>

fun is_datetime :: "cell \<Rightarrow> bool" where
  "is_datetime (Ts t) = True"
| "is_datetime NaT = True"
| "is_datetime _ = False"

definition datetime_parser :: "(cell list \<Rightarrow> cell list) \<Rightarrow> bool" where
  "datetime_parser f =
     (\<forall>col. length (f col) = length col \<and> list_all is_datetime (f col)
            \<and> (list_all is_datetime col \<longrightarrow> f col = col))"

text \<open>
  The numeric cells of a frame read back: the conversion of a numeric column, applied to
  a cell of the frame's numeric columns, returns the cell.
\<close>

definition reads_back :: "pylib \<Rightarrow> dataframe \<Rightarrow> bool" where
  "reads_back L df =
     list_all (\<lambda>name. list_all (\<lambda>x. FloatC (clean_numeric L x) = x) (column df name)) numeric_cols"

text \<open>The characters that \<open>cleansed_form\<close> keeps.\<close>

definition is_alnum_upper :: "char \<Rightarrow> bool" where
  "is_alnum_upper c = (is_upper c \<or> is_digit c)"

section \<open>Example ledgers\<close>

text \<open>
  Invoice \<open>INV-001\<close> of 15/07/2023 in the GSTR-2A ledger, and two versions of it in the
  Books ledger: one exactly at the default tolerances (3 days later, total and tax lower
  by 1.00), one beyond them (4 days later, total lower by 100.00, tax lower by 2.00).
\<close>

definition inv001_gstr :: invoice where
  "inv001_gstr =
     \<lparr>invoice_no = ''INV-001'', invoice_date = Some 1689379200000000000,
      supplier_gstin = ''22AAAAA0000A1Z5'', taxable_value = 10000, cgst = 900, sgst = 900,
      igst = 0, total_amount = 11800, place_of_supply = ''07'',
      match_key = Some ''INV-001_22AAAAA0000A1Z5''\<rparr>"

definition inv001_books_within :: invoice where
  "inv001_books_within =
     inv001_gstr\<lparr>invoice_date := Some (1689379200000000000 + 3 * day_ns),
                  cgst := 899, total_amount := 11799\<rparr>"

definition inv001_books_beyond :: invoice where
  "inv001_books_beyond =
     inv001_gstr\<lparr>invoice_date := Some (1689379200000000000 + 4 * day_ns),
                  cgst := 898, total_amount := 11700\<rparr>"

definition inv002_gstr :: invoice where
  "inv002_gstr =
     \<lparr>invoice_no = ''INV-002'', invoice_date = Some 1689379200000000000,
      supplier_gstin = ''22AAAAA0000A1Z5'', taxable_value = 5000, cgst = 450, sgst = 450,
      igst = 0, total_amount = 5900, place_of_supply = ''07'',
      match_key = Some ''INV-002_22AAAAA0000A1Z5''\<rparr>"

definition inv003_gstr :: invoice where
  "inv003_gstr =
     \<lparr>invoice_no = ''INV-003'', invoice_date = None,
      supplier_gstin = ''22AAAAA0000A1Z5'', taxable_value = 100, cgst = 0, sgst = 0,
      igst = 18, total_amount = 118, place_of_supply = ''07'',
      match_key = Some ''INV-003_22AAAAA0000A1Z5''\<rparr>"

definition example_gstr2a :: "invoice list" where
  "example_gstr2a = [inv001_gstr, inv002_gstr, inv003_gstr, inv003_gstr]"

definition example_books :: "invoice list" where
  "example_books = [inv001_books_beyond]"

text \<open>
  Two rows of a GSTR-2A sheet: the first with a negative total, the second without an
  invoice number and without a date.  \<open>sample_once\<close> is the normalized table.
\<close>

definition sample_table :: dataframe where
  "sample_table =
     [(''Invoice No'', [Str ''INV-001'', PyNone]),
      (''Invoice Date'', [Str ''15/07/2023'', PyNone]),
      (''GSTIN'', [Str ''22AAAAA0000A1Z5'', Str ''22AAAAA0000A1Z5'']),
      (''Taxable Value'', [Str ''11800.5'', Str ''250'']),
      (''Total Amount'', [Str ''-100'', Str ''295''])]"

definition sample_once :: dataframe where
  "sample_once =
     [(''invoice_no'', [Str ''INV-001'', Str ''None'']),
      (''invoice_date'', [Ts 1689379200000000000, NaT]),
      (''supplier_gstin'', [Str ''22AAAAA0000A1Z5'', Str ''22AAAAA0000A1Z5'']),
      (''taxable_value'', [FloatC (23601 / 2), FloatC 250]),
      (''cgst'', [FloatC 0, FloatC 0]),
      (''sgst'', [FloatC 0, FloatC 0]),
      (''igst'', [FloatC 0, FloatC 0]),
      (''total_amount'', [FloatC 100, FloatC 295]),
      (''place_of_supply'', [Str '''', Str '''']),
      (''match_key'', [Str ''INV-001_22AAAAA0000A1Z5'', NaN])]"

definition sample_row1 :: invoice where
  "sample_row1 =
     \<lparr>invoice_no = ''INV-001'', invoice_date = Some 1689379200000000000,
      supplier_gstin = ''22AAAAA0000A1Z5'', taxable_value = 23601 / 2, cgst = 0, sgst = 0,
      igst = 0, total_amount = 100, place_of_supply = '''',
      match_key = Some ''INV-001_22AAAAA0000A1Z5''\<rparr>"

definition sample_row2 :: invoice where
  "sample_row2 =
     \<lparr>invoice_no = ''None'', invoice_date = None,
      supplier_gstin = ''22AAAAA0000A1Z5'', taxable_value = 250, cgst = 0, sgst = 0,
      igst = 0, total_amount = 295, place_of_supply = '''',
      match_key = None\<rparr>"

text \<open>
  A sheet with a taxable value of \<open>0.00005\<close>, the table after one normalization and the
  table after two.
\<close>

definition tiny_amount_table :: dataframe where
  "tiny_amount_table =
     [(''Invoice No'', [Str ''INV-9'']),
      (''GSTIN'', [Str ''22AAAAA0000A1Z5'']),
      (''Taxable Value'', [Str ''0.00005''])]"

definition tiny_amount_once :: dataframe where
  "tiny_amount_once =
     [(''invoice_no'', [Str ''INV-9'']),
      (''invoice_date'', [NaT]),
      (''supplier_gstin'', [Str ''22AAAAA0000A1Z5'']),
      (''taxable_value'', [FloatC (float64 (5 / 100000))]),
      (''cgst'', [FloatC 0]),
      (''sgst'', [FloatC 0]),
      (''igst'', [FloatC 0]),
      (''total_amount'', [FloatC 0]),
      (''place_of_supply'', [Str '''']),
      (''match_key'', [Str ''INV-9_22AAAAA0000A1Z5''])]"

definition tiny_amount_twice :: dataframe where
  "tiny_amount_twice =
     [(''invoice_no'', [Str ''INV-9'']),
      (''invoice_date'', [NaT]),
      (''supplier_gstin'', [Str ''22AAAAA0000A1Z5'']),
      (''taxable_value'', [FloatC 505]),
      (''cgst'', [FloatC 0]),
      (''sgst'', [FloatC 0]),
      (''igst'', [FloatC 0]),
      (''total_amount'', [FloatC 0]),
      (''place_of_supply'', [Str '''']),
      (''match_key'', [Str ''INV-9_22AAAAA0000A1Z5''])]"

text \<open>
  Two rows with totals \<open>2.14\<close> and \<open>1.14\<close>, whose decimal difference is \<open>1.00\<close> and whose
  float difference is larger.
\<close>

definition inv004_gstr :: invoice where
  "inv004_gstr = inv001_gstr\<lparr>total_amount := float64 (214 / 100)\<rparr>"

definition inv004_books :: invoice where
  "inv004_books = inv001_gstr\<lparr>total_amount := float64 (114 / 100)\<rparr>"

text \<open>
  Two rows with totals \<open>2.0\<close> and \<open>0.9999999999999999\<close>, whose float difference is
  \<open>1.0\<close>.
\<close>

definition inv005_gstr :: invoice where
  "inv005_gstr = inv001_gstr\<lparr>total_amount := 2\<rparr>"

definition inv005_books :: invoice where
  "inv005_books = inv001_gstr\<lparr>total_amount := float64 (9999999999999999 / 10 ^ 16)\<rparr>"

section \<open>Evaluation rules and auxiliary facts\<close>

lemmas char_class_defs = is_upper_def is_lower_def is_digit_def is_space_def
  ascii_lowercase_def ascii_uppercase_def ascii_digits_def

lemmas text_defs = strip_def upper_def lower_def upper_char_def lower_char_def ljust_def

lemmas num_text_defs = str_of_int_def str_of_nat.simps digit_char_def digit_val_def
  nat_of_digits_def to_numeric_coerce_def

lemmas gstin_defs = clean_gstin_def fit15_def cleansed_form_def gstin_valid_def
  fullmatch_classes_def

lemma gstin_pattern_list:
  "gstin_pattern =
     [is_digit, is_digit, is_upper, is_upper, is_upper, is_upper, is_upper,
      is_digit, is_digit, is_digit, is_digit, is_upper,
      (\<lambda>c. (is_digit c \<and> c \<noteq> CHR ''0'') \<or> is_upper c),
      (\<lambda>c. c = CHR ''Z''),
      (\<lambda>c. is_digit c \<or> is_upper c)]"
  by (simp add: gstin_pattern_def eval_nat_numeral)

lemma gstin_pattern_length: "length gstin_pattern = 15"
  by (simp add: gstin_pattern_def)

lemma gstin_pattern_nth13: "gstin_pattern ! 13 = (\<lambda>c. c = CHR ''Z'')"
  by (simp add: gstin_pattern_def nth_append)

lemma length_fit15: "length (fit15 g) = 15"
  by (simp add: fit15_def ljust_def)

lemma fullmatch_imp_Z:
  assumes "fullmatch_classes gstin_pattern g"
  shows "g ! 13 = CHR ''Z''"
proof -
  from assms have "\<forall>i<length gstin_pattern. (gstin_pattern ! i) (g ! i)"
    unfolding fullmatch_classes_def by (simp add: list_all2_conv_all_nth)
  then have "(gstin_pattern ! 13) (g ! 13)"
    by (simp add: gstin_pattern_length)
  then show ?thesis
    by (simp add: gstin_pattern_nth13)
qed

lemma fit15_short: "length g < 15 \<Longrightarrow> fit15 g = ljust 15 (CHR ''X'') g"
  by (simp add: fit15_def)

lemma ljust_nth13: "length g < 14 \<Longrightarrow> ljust 15 (CHR ''X'') g ! 13 = CHR ''X''"
  by (simp add: ljust_def nth_append)

lemma length_clean_gstin:
  "length (fst (clean_gstin L c)) = 0 \<or> length (fst (clean_gstin L c)) = 15"
  by (simp add: clean_gstin_def Let_def length_fit15)

lemma clean_gstin_null_text:
  "fst (clean_gstin L c) \<in> set null_texts \<longleftrightarrow> fst (clean_gstin L c) = ''''"
  using length_clean_gstin [of L c] by (auto simp: null_texts_def)

lemma filter_none: "(\<And>x. x \<in> set xs \<Longrightarrow> \<not> P x) \<Longrightarrow> filter P xs = []"
  by (induction xs) auto

lemma filter_all: "(\<And>x. x \<in> set xs \<Longrightarrow> P x) \<Longrightarrow> filter P xs = xs"
  by (induction xs) auto

lemma fuel_steps:
  "halvings (numeral f) a = (if a < 2 then 0 else halvings (pred_numeral f) (a / 2) + 1)"
  "doublings (numeral f) a = (if 1 \<le> a then 0 else doublings (pred_numeral f) (a * 2) + 1)"
  "int_digits (numeral f) a = (if a < 1 then 0 else int_digits (pred_numeral f) (a / 10) + 1)"
  "leading_zeros (numeral f) a
     = (if 1 / 10 \<le> a then 0 else leading_zeros (pred_numeral f) (a * 10) + 1)"
  "shortest_digits (numeral f) k x p =
     (let n = round_half_even (scale10 x (int k - p))
      in if float64 (scale10 (real n) (p - int k)) = x then (n, k)
         else shortest_digits (pred_numeral f) (k + 1) x p)"
  by (simp_all add: numeral_eq_Suc)

lemma replicate_step: "replicate (numeral k) x = x # replicate (pred_numeral k) x"
  by (simp add: numeral_eq_Suc)

lemmas float64_eval = float64_def round_half_even_def Let_def fuel_steps

lemmas float_str_eval = py_float_str_def py_float_pos_def decimal_point_def scale10_def
  strip_trailing_zeros_def exp_text_def sci_text_def str_of_nat.simps digit_char_def
  ascii_digits_def replicate_step

lemma float64_nonneg: "0 \<le> x \<Longrightarrow> 0 \<le> float64 x"
  by (simp add: float64_def Let_def sgn_if)

lemma float64_examples:
  "float64 0 = 0"
  "float64 1 = 1"
  "float64 2 = 2"
  "float64 5 = 5"
  "float64 100 = 100"
  "float64 250 = 250"
  "float64 295 = 295"
  "float64 505 = 505"
  "float64 900 = 900"
  "float64 1797 = 1797"
  "float64 1798 = 1798"
  "float64 1799 = 1799"
  "float64 1800 = 1800"
  "float64 (23601 / 2) = 23601 / 2"
  by (simp_all add: float64_eval)

lemma float64_decimal_examples:
  "float64 (5 / 100000) = 7378697629483821 / 2 ^ 67"
  "float64 (1 / 20000) = 7378697629483821 / 2 ^ 67"
  "float64 (214 / 100) = 4818851601286431 / 2 ^ 51"
  "float64 (114 / 100) = 5134103575202365 / 2 ^ 52"
  by (simp_all add: float64_eval)

lemma float_str_examples:
  "py_float_str 0 = ''0.0''"
  "py_float_str 100 = ''100.0''"
  "py_float_str 250 = ''250.0''"
  "py_float_str 295 = ''295.0''"
  "py_float_str (23601 / 2) = ''11800.5''"
  "py_float_str (7378697629483821 / 2 ^ 67) = ''5e-05''"
  by (simp_all add: float64_eval float_str_eval)

lemma to_numeric_coerce_nonneg: "to_numeric_coerce s = Some v \<Longrightarrow> 0 \<le> v"
  by (auto simp: to_numeric_coerce_def Let_def float64_nonneg split: if_splits)

lemma clean_numeric_ge0: "0 \<le> clean_numeric L c"
  by (auto simp: clean_numeric_def dest: to_numeric_coerce_nonneg split: option.splits)

section \<open>Identifier cleansing\<close>

text \<open>
  C9, as stated, fails: a cleansed form of 14 characters is shorter than 15, and the
  filler \<open>X\<close> is accepted by the last class \<open>[0-9A-Z]\<close> of the pattern.  The raw
  identifier \<open>22AAAAA0000A1Z\<close> is padded to \<open>22AAAAA0000A1ZX\<close>, which matches the pattern
  and is returned without a warning.
\<close>

theorem clean_gstin_padded_valid_counterexample:
  "length (cleansed_form ''22AAAAA0000A1Z'') < 15
   \<and> clean_gstin py_model (Str ''22AAAAA0000A1Z'') = (''22AAAAA0000A1ZX'', False)
   \<and> fullmatch_classes gstin_pattern ''22AAAAA0000A1ZX''"
  by (simp add: gstin_defs gstin_pattern_list text_defs char_class_defs)

text \<open>
  C9, amended: for every raw identifier that is not a null text and whose cleansed form
  is shorter than 14 characters, \<open>clean_gstin\<close> returns the cleansed form padded with
  \<open>X\<close> to 15 characters and logs the warning, and the padded value does not match the
  structural pattern: its 14th character is the filler where the pattern has \<open>Z\<close>.
\<close>

theorem clean_gstin_short_padded:
  assumes "lower (strip raw) \<notin> set ['''', ''nan'', ''none'']"
    and "length (cleansed_form raw) < 14"
  shows "clean_gstin L (Str raw) = (ljust 15 (CHR ''X'') (cleansed_form raw), True)
         \<and> \<not> fullmatch_classes gstin_pattern (fst (clean_gstin L (Str raw)))"
proof -
  let ?p = "ljust 15 (CHR ''X'') (cleansed_form raw)"
  have fit: "fit15 (cleansed_form raw) = ?p"
    using assms(2) by (simp add: fit15_short)
  have "?p ! 13 = CHR ''X''"
    using assms(2) by (rule ljust_nth13)
  then have nomatch: "\<not> fullmatch_classes gstin_pattern ?p"
    using fullmatch_imp_Z [of ?p] by auto
  then have "\<not> gstin_valid ?p"
    by (simp add: gstin_valid_def)
  with assms(1) fit have "clean_gstin L (Str raw) = (?p, True)"
    by (simp add: clean_gstin_def)
  with nomatch show ?thesis by simp
qed

text \<open>The theorem at the raw identifier \<open>27abcde1234\<close>.\<close>

theorem clean_gstin_short_padded_witness:
  "lower (strip ''27abcde1234'') \<notin> set ['''', ''nan'', ''none'']
   \<and> length (cleansed_form ''27abcde1234'') < 14
   \<and> clean_gstin py_model (Str ''27abcde1234'') = (''27ABCDE1234XXXX'', True)
   \<and> \<not> fullmatch_classes gstin_pattern ''27ABCDE1234XXXX''"
proof -
  have h1: "lower (strip ''27abcde1234'') \<notin> set ['''', ''nan'', ''none'']"
    by (simp add: text_defs char_class_defs)
  have c: "cleansed_form ''27abcde1234'' = ''27ABCDE1234''"
    by (simp add: cleansed_form_def text_defs char_class_defs)
  have h2: "length (cleansed_form ''27abcde1234'') < 14"
    by (simp add: c)
  have p: "ljust 15 (CHR ''X'') ''27ABCDE1234'' = ''27ABCDE1234XXXX''"
    by (simp add: ljust_def eval_nat_numeral)
  note padded = clean_gstin_short_padded [OF h1 h2, of py_model]
  have a: "clean_gstin py_model (Str ''27abcde1234'') = (''27ABCDE1234XXXX'', True)"
    using padded by (simp add: c p)
  have b: "\<not> fullmatch_classes gstin_pattern ''27ABCDE1234XXXX''"
    using padded by (simp add: a c p)
  show ?thesis
    using h1 h2 a b by simp
qed

section \<open>Settings\<close>

lemma py_float_minus5: "py_float py_model ''-5'' = Some (- 5)"
  by (simp add: py_model_def py_float_of_str_def text_defs char_class_defs num_text_defs
      float64_examples)

lemma py_float_abc: "py_float py_model ''abc'' = None"
  by (simp add: py_model_def py_float_of_str_def text_defs char_class_defs num_text_defs)

lemma isdigit_3: "isdigit ''3''" "isdigit ''7''" "\<not> isdigit ''-2''" "\<not> isdigit ''x''"
  by (simp_all add: isdigit_def char_class_defs)

text \<open>
  C8, as stated, fails: the amount tolerance \<open>-5\<close> is a number, so it is not rejected;
  it is replaced by \<open>0.0\<close> and the user is told that the settings were saved.
\<close>

theorem save_settings_negative_amount_counterexample:
  "py_float py_model ''-5'' = Some (- 5)
   \<and> save_settings py_model \<lparr>date_tolerance = 3, amount_tolerance = 1, auto_clean_gstin = True\<rparr>
        ''3'' ''-5'' 1
     = (\<lparr>date_tolerance = 3, amount_tolerance = 0, auto_clean_gstin = True\<rparr>, Saved)"
  by (simp add: save_settings_def isdigit_3 py_float_minus5 nat_of_digits_def digit_val_def char_class_defs)

text \<open>
  C8, amended.  A date tolerance that is not a non-empty text of digits, which includes
  every negative and every non-numeric input, is rejected with a report and all settings
  are retained.  An amount tolerance that \<open>float\<close> does not accept is rejected with a
  report, and the saved amount tolerance and cleansing flag are retained.  A negative
  amount tolerance is not rejected: it is saved as \<open>0.0\<close> and reported as saved.
\<close>

theorem save_settings_invalid_input:
  "(\<not> isdigit d \<longrightarrow>
      save_settings L S d a v = (S, Invalid ''Date tolerance must be a whole number.''))
   \<and> (isdigit d \<and> py_float L a = None \<longrightarrow>
        snd (save_settings L S d a v) = Invalid ''Amount/Tax tolerance must be a number.''
        \<and> amount_tolerance (fst (save_settings L S d a v)) = amount_tolerance S
        \<and> auto_clean_gstin (fst (save_settings L S d a v)) = auto_clean_gstin S)
   \<and> (isdigit d \<and> py_float L a = Some x \<and> x < 0 \<longrightarrow>
        snd (save_settings L S d a v) = Saved
        \<and> amount_tolerance (fst (save_settings L S d a v)) = 0)
   \<and> \<not> isdigit (CHR ''-'' # d)"
  by (simp add: save_settings_def Let_def isdigit_def char_class_defs)

text \<open>The theorem at the inputs \<open>-2\<close>, \<open>abc\<close> and \<open>-5\<close>.\<close>

theorem save_settings_invalid_input_witness:
  "\<not> isdigit ''-2''
   \<and> save_settings py_model default_settings ''-2'' ''0.5'' 1
       = (default_settings, Invalid ''Date tolerance must be a whole number.'')
   \<and> isdigit ''3'' \<and> py_float py_model ''abc'' = None
   \<and> snd (save_settings py_model default_settings ''3'' ''abc'' 1)
       = Invalid ''Amount/Tax tolerance must be a number.''
   \<and> amount_tolerance (fst (save_settings py_model default_settings ''3'' ''abc'' 1)) = 1
   \<and> py_float py_model ''-5'' = Some (- 5) \<and> (- 5 :: real) < 0
   \<and> snd (save_settings py_model default_settings ''3'' ''-5'' 1) = Saved
   \<and> amount_tolerance (fst (save_settings py_model default_settings ''3'' ''-5'' 1)) = 0"
  using save_settings_invalid_input [where d = "''-2''" and L = py_model and S = default_settings
        and a = "''0.5''" and v = 1]
    save_settings_invalid_input [where d = "''3''" and L = py_model and S = default_settings
        and a = "''abc''" and v = 1]
    save_settings_invalid_input [where d = "''3''" and L = py_model and S = default_settings
        and a = "''-5''" and v = 1 and x = "- 5"]
  by (simp add: isdigit_3 py_float_abc py_float_minus5 default_settings_def)

text \<open>
  When the date tolerance is acceptable and the amount tolerance is not, the date
  tolerance has already been assigned when the error is raised.
\<close>

lemma save_settings_partial_update:
  "save_settings py_model default_settings ''7'' ''abc'' 1
     = (default_settings\<lparr>date_tolerance := 7\<rparr>, Invalid ''Amount/Tax tolerance must be a number.'')"
  by (simp add: save_settings_def isdigit_3 py_float_abc nat_of_digits_def digit_val_def char_class_defs)

section \<open>Date columns\<close>

text \<open>
  The fallback parser only ever receives missing timestamps, because it reads the column
  the day-first parser has already overwritten.  As a missing timestamp parses to a
  missing timestamp, the date loop returns what the day-first parser returned.
\<close>

lemma assign_masked_all_same:
  "list_all (\<lambda>c. p c \<longrightarrow> c = x) cs \<Longrightarrow> assign_masked p cs (replicate n x) = cs"
proof (induction cs arbitrary: n)
  case Nil
  then show ?case by simp
next
  case (Cons c cs)
  from Cons.prems have rest: "list_all (\<lambda>c. p c \<longrightarrow> c = x) cs" and here: "p c \<longrightarrow> c = x"
    by simp_all
  have ih: "assign_masked p cs (replicate m x) = cs" for m
    using Cons.IH [OF rest] .
  have ih0: "assign_masked p cs [] = cs"
    using ih [of 0] by simp
  have ihS: "assign_masked p cs (x # replicate m x) = cs" for m
    using ih [of "Suc m"] by simp
  show ?case
    using here ih ih0 ihS by (cases n) auto
qed

lemma filter_isna_NaT:
  "list_all (\<lambda>c. isna c \<longrightarrow> c = NaT) cs \<Longrightarrow> filter isna cs = replicate (length (filter isna cs)) NaT"
  by (induction cs) auto

lemma convert_date_col_no_fallback:
  assumes "\<And>n. to_datetime_mixed L (replicate n NaT) = replicate n NaT"
    and "list_all (\<lambda>c. isna c \<longrightarrow> c = NaT) (to_datetime_dayfirst L col)"
  shows "convert_date_col L col = to_datetime_dayfirst L col"
proof -
  let ?c1 = "to_datetime_dayfirst L col"
  have "filter isna ?c1 = replicate (length (filter isna ?c1)) NaT"
    using assms(2) by (rule filter_isna_NaT)
  then have "to_datetime_mixed L (filter isna ?c1) = replicate (length (filter isna ?c1)) NaT"
    using assms(1) by metis
  then show ?thesis
    using assms(2) by (simp add: convert_date_col_def Let_def assign_masked_all_same)
qed

lemmas date_defs = parse_dmy_def parse_iso_def parse_dmy_or_iso_def timestamp_of_date_def
  days_in_month_def days_from_civil_def day_ns_def

lemma parse_examples:
  "parse_dmy ''15/07/2023'' = Ts 1689379200000000000"
  "parse_dmy ''2023-07-20'' = NaT"
  "parse_dmy_or_iso ''2023-07-20'' = Ts 1689811200000000000"
  by (simp_all add: date_defs Let_def nat_of_digits_def digit_val_def char_class_defs)

text \<open>
  C6 at a failing input: in the column \<open>15/07/2023\<close>, \<open>2023-07-20\<close> the day-first
  parser fails on the second text and the permissive parser reads it, yet the normalized
  date is missing.
\<close>

theorem date_fallback_never_recovers:
  "to_datetime_dayfirst py_model [Str ''15/07/2023'', Str ''2023-07-20'']
     = [Ts 1689379200000000000, NaT]
   \<and> to_datetime_mixed py_model [Str ''2023-07-20''] = [Ts 1689811200000000000]
   \<and> convert_date_col py_model [Str ''15/07/2023'', Str ''2023-07-20'']
     = [Ts 1689379200000000000, NaT]"
  by (simp add: convert_date_col_def py_model_def parse_examples)

section \<open>The columns of a normalized table\<close>

lemma column_set_column:
  "column (set_column name vs df) m = (if m = name then vs else column df m)"
proof (cases "name \<in> set (columns df)")
  case True
  have "map_of (map (\<lambda>(n, old). if n = name then (n, vs) else (n, old)) df) m
        = (if m = name then (if m \<in> fst ` set df then Some vs else None) else map_of df m)"
    by (induction df) (auto simp: image_iff, force+)
  with True show ?thesis
    by (auto simp: column_def set_column_def columns_def)
next
  case False
  then have "map_of df name = None"
    by (simp add: columns_def map_of_eq_None_iff)
  with False show ?thesis
    by (auto simp: column_def set_column_def map_add_def split: option.splits)
qed

lemma columns_set_column:
  "columns (set_column name vs df) = (if name \<in> set (columns df) then columns df else columns df @ [name])"
  by (auto simp: set_column_def columns_def split: prod.splits)

lemma columns_set_column_mem:
  "m \<in> set (columns (set_column name vs df)) \<longleftrightarrow> m = name \<or> m \<in> set (columns df)"
  by (auto simp: columns_set_column)

lemma select_columns_present:
  "set names \<subseteq> set (columns df) \<Longrightarrow> select_columns names df = map (\<lambda>n. (n, column df n)) names"
  by (simp add: select_columns_def filter_all subset_iff cong: filter_cong)

lemma fold_update_columns:
  assumes "set names \<subseteq> set (columns d)"
  shows "columns (fold (\<lambda>col d. if col \<in> set (columns d)
                                   then set_column col (f (column d col)) d
                                   else set_column col dflt d) names d) = columns d"
  using assms
proof (induction names arbitrary: d)
  case Nil
  then show ?case by simp
next
  case (Cons a names)
  then show ?case
    by (simp add: columns_set_column)
qed

lemma fold_update_column:
  assumes "set names \<subseteq> set (columns d)" and "distinct names"
  shows "column (fold (\<lambda>col d. if col \<in> set (columns d)
                                  then set_column col (f (column d col)) d
                                  else set_column col dflt d) names d) m
         = (if m \<in> set names then f (column d m) else column d m)"
  using assms
proof (induction names arbitrary: d)
  case Nil
  then show ?case by simp
next
  case (Cons a names)
  then show ?case
    by (auto simp: columns_set_column column_set_column)
qed

lemma date_cols_distinct: "distinct (date_cols source)"
  by (simp add: date_cols_def)

lemma numeric_cols_distinct: "distinct numeric_cols"
  by (simp add: numeric_cols_def)

lemma convert_dates_columns:
  assumes "set (date_cols source) \<subseteq> set (columns d)"
  shows "columns (convert_dates L source n d) = columns d"
    and "column (convert_dates L source n d) m
         = (if m \<in> set (date_cols source) then convert_date_col L (column d m) else column d m)"
  unfolding convert_dates_def
  using fold_update_columns [OF assms] fold_update_column [OF assms date_cols_distinct]
  by simp_all

lemma convert_numerics_columns:
  assumes "set numeric_cols \<subseteq> set (columns d)"
  shows "columns (convert_numerics L n d) = columns d"
    and "column (convert_numerics L n d) m
         = (if m \<in> set numeric_cols then map (\<lambda>c. FloatC (clean_numeric L c)) (column d m)
            else column d m)"
  unfolding convert_numerics_def
  using fold_update_columns [OF assms] fold_update_column [OF assms numeric_cols_distinct]
  by simp_all

lemma clean_gstin_column_columns:
  assumes "''supplier_gstin'' \<in> set (columns d)"
  shows "columns (clean_gstin_column L ac d) = columns d"
    and "column (clean_gstin_column L ac d) m
         = (if m = ''supplier_gstin'' then map (gstin_cell L ac) (column d m) else column d m)"
  using assms
  by (auto simp: clean_gstin_column_def columns_set_column column_set_column gstin_cell_def)

lemma str_gstin_cell: "Str (py_str L (gstin_cell L ac c)) = gstin_cell L ac c"
  by (simp add: gstin_cell_def fillna_str_def)

lemma str_gstin_cell_comp: "(\<lambda>c. Str (py_str L c)) \<circ> gstin_cell L ac = gstin_cell L ac"
  by (simp add: fun_eq_iff str_gstin_cell)

lemma add_match_key_columns:
  assumes "''invoice_no'' \<in> set (columns d)" and "''supplier_gstin'' \<in> set (columns d)"
  shows "set (columns (add_match_key L d)) = insert ''match_key'' (set (columns d))"
    and "m \<noteq> ''match_key'' \<Longrightarrow> m \<noteq> ''invoice_no'' \<Longrightarrow> m \<noteq> ''supplier_gstin''
         \<Longrightarrow> column (add_match_key L d) m = column d m"
    and "column (add_match_key L d) ''invoice_no'' = map (\<lambda>c. Str (py_str L c)) (column d ''invoice_no'')"
    and "column (add_match_key L d) ''supplier_gstin''
         = map (\<lambda>c. Str (py_str L c)) (column d ''supplier_gstin'')"
    and "column (add_match_key L d) ''match_key''
         = map (\<lambda>(a, b). make_match_key (py_str L a) (py_str L b))
               (zip (map (\<lambda>c. Str (py_str L c)) (column d ''invoice_no''))
                    (map (\<lambda>c. Str (py_str L c)) (column d ''supplier_gstin'')))"
  using assms
  by (auto simp: add_match_key_def Let_def columns_set_column column_set_column)

lemma fill_place_of_supply_columns:
  assumes "''place_of_supply'' \<in> set (columns d)"
  shows "columns (fill_place_of_supply L n d) = columns d"
    and "column (fill_place_of_supply L n d) m
         = (if m = ''place_of_supply'' then map (fillna_str L) (column d m) else column d m)"
  using assms
  by (auto simp: fill_place_of_supply_def columns_set_column column_set_column)

lemma std_names_cases:
  "std_names source =
     [''invoice_no'', ''invoice_date'', ''supplier_gstin'', ''taxable_value'',
      ''cgst'', ''sgst'', ''igst'', ''total_amount'', ''place_of_supply'']
     @ (if source = ''Books'' then [''book_entry_date''] else [])"
  by (simp add: std_names_def standard_columns_map_def)

lemma final_cols_order_cases:
  "final_cols_order source = std_names source @ [''match_key'']"
  by (simp add: final_cols_order_def std_names_cases)

lemma pipeline_normalized:
  assumes "set (std_names source) \<subseteq> set (columns d3)"
  shows "select_columns (final_cols_order source)
           (fill_place_of_supply L n (add_match_key L (clean_gstin_column L ac
              (convert_numerics L n (convert_dates L source n d3)))))
         = map (\<lambda>name. (name, normalized_column L ac (column d3) name)) (final_cols_order source)"
proof -
  let ?d4 = "convert_dates L source n d3"
  let ?d5 = "convert_numerics L n ?d4"
  let ?d6 = "clean_gstin_column L ac ?d5"
  let ?d7 = "add_match_key L ?d6"
  let ?d8 = "fill_place_of_supply L n ?d7"
  have mem: "''invoice_no'' \<in> set (columns d3)" "''invoice_date'' \<in> set (columns d3)"
    "''supplier_gstin'' \<in> set (columns d3)" "''place_of_supply'' \<in> set (columns d3)"
    "set numeric_cols \<subseteq> set (columns d3)" "set (date_cols source) \<subseteq> set (columns d3)"
    using assms by (auto simp: std_names_cases numeric_cols_def date_cols_def)
  note c4 = convert_dates_columns [OF mem(6), where L = L and n = n]
  have mem4: "set numeric_cols \<subseteq> set (columns ?d4)"
    using mem(5) by (simp add: c4(1))
  note c5 = convert_numerics_columns [OF mem4, where L = L and n = n]
  have mem5: "''supplier_gstin'' \<in> set (columns ?d5)"
    using mem(3) by (simp add: c5(1) c4(1))
  note c6 = clean_gstin_column_columns [OF mem5, where L = L and ac = ac]
  have mem6: "''invoice_no'' \<in> set (columns ?d6)" "''supplier_gstin'' \<in> set (columns ?d6)"
    using mem(1,3) by (simp_all add: c6(1) c5(1) c4(1))
  note c7 = add_match_key_columns [OF mem6, where L = L]
  have mem7: "''place_of_supply'' \<in> set (columns ?d7)"
    using mem(4) by (simp add: c7(1) c6(1) c5(1) c4(1))
  note c8 = fill_place_of_supply_columns [OF mem7, where L = L and n = n]
  have cols8: "set (columns ?d8) = insert ''match_key'' (set (columns d3))"
    by (simp add: c8(1) c7(1) c6(1) c5(1) c4(1))
  have sub: "set (final_cols_order source) \<subseteq> set (columns ?d8)"
    using assms by (auto simp: cols8 final_cols_order_cases)
  have each: "column ?d8 name = normalized_column L ac (column d3) name"
    if "name \<in> set (final_cols_order source)" for name
  proof -
    from that have "name = ''invoice_no'' \<or> name = ''invoice_date'' \<or> name = ''supplier_gstin''
        \<or> name \<in> set numeric_cols \<or> name = ''place_of_supply''
        \<or> (name = ''book_entry_date'' \<and> source = ''Books'') \<or> name = ''match_key''"
      by (auto simp: final_cols_order_cases std_names_cases numeric_cols_def split: if_splits)
    then show ?thesis
    proof (elim disjE conjE, goal_cases)
      case 1
      then show ?thesis
        by (simp add: c8(2) c7(3) c6(2) c5(2) c4(2) normalized_column_def numeric_cols_def
            date_cols_def)
    next
      case 2
      then show ?thesis
        by (simp add: c8(2) c7(2) c6(2) c5(2) c4(2) normalized_column_def numeric_cols_def
            date_cols_def)
    next
      case 3
      then show ?thesis
        by (simp add: c8(2) c7(4) c6(2) c5(2) c4(2) normalized_column_def numeric_cols_def
            date_cols_def str_gstin_cell)
    next
      case 4
      then have "name \<noteq> ''match_key''" "name \<noteq> ''invoice_no''" "name \<noteq> ''supplier_gstin''"
        "name \<noteq> ''place_of_supply''" "name \<noteq> ''invoice_date''" "name \<noteq> ''book_entry_date''"
        by (auto simp: numeric_cols_def)
      with 4 show ?thesis
        by (simp add: c8(2) c7(2) c6(2) c5(2) c4(2) normalized_column_def date_cols_def)
    next
      case 5
      then show ?thesis
        by (simp add: c8(2) c7(2) c6(2) c5(2) c4(2) normalized_column_def numeric_cols_def
            date_cols_def)
    next
      case 6
      with c8(2) [of name] c7(2) [of name] c6(2) [of name] c5(2) [of name] c4(2) [of name]
      show ?thesis
        by (simp add: normalized_column_def numeric_cols_def date_cols_def)
    next
      case 7
      then show ?thesis
        by (simp add: c8(2) c7(5) c6(2) c5(2) c4(2) normalized_column_def numeric_cols_def
            date_cols_def str_gstin_cell str_gstin_cell_comp)
    qed
  qed
  show ?thesis
    using each by (simp add: select_columns_present [OF sub])
qed

lemma alnum_not_space: "is_upper c \<or> is_digit c \<Longrightarrow> \<not> is_space c"
  by (auto simp: char_class_defs)

lemma alnum_not_lower: "is_upper c \<or> is_digit c \<Longrightarrow> c \<notin> set ascii_lowercase"
  by (auto simp: char_class_defs)

lemma upper_char_alnum: "is_upper c \<or> is_digit c \<Longrightarrow> upper_char c = c"
proof -
  assume "is_upper c \<or> is_digit c"
  then have "c \<notin> set ascii_lowercase"
    by (rule alnum_not_lower)
  then have "map_of (zip ascii_lowercase ascii_uppercase) c = None"
    by (simp add: map_of_zip_is_None ascii_lowercase_def ascii_uppercase_def)
  then show ?thesis
    by (simp add: upper_char_def)
qed

lemma strip_no_space:
  assumes "list_all (\<lambda>c. \<not> is_space c) g"
  shows "strip g = g"
proof -
  have d: "dropWhile is_space xs = xs" if "list_all (\<lambda>c. \<not> is_space c) xs" for xs
    using that by (cases xs) auto
  have "list_all (\<lambda>c. \<not> is_space c) (rev g)"
    using assms by (simp add: list_all_iff)
  then show ?thesis
    using assms by (simp add: strip_def d)
qed

lemma cleansed_form_alnum:
  assumes "list_all is_alnum_upper g"
  shows "cleansed_form g = g"
proof -
  have ns: "list_all (\<lambda>c. \<not> is_space c) g"
    using assms alnum_not_space by (auto simp: list_all_iff is_alnum_upper_def)
  have up: "upper g = g"
    using assms upper_char_alnum
    by (auto simp: upper_def list_all_iff is_alnum_upper_def intro: map_idI)
  have "filter (\<lambda>c. is_upper c \<or> is_digit c) g = g"
    using assms by (auto simp: list_all_iff is_alnum_upper_def intro: filter_True)
  then show ?thesis
    by (simp add: cleansed_form_def strip_no_space [OF ns] up)
qed

lemma cleansed_form_is_alnum: "list_all is_alnum_upper (cleansed_form s)"
  by (simp add: cleansed_form_def list_all_iff is_alnum_upper_def)

lemma fit15_is_alnum:
  assumes "list_all is_alnum_upper g"
  shows "list_all is_alnum_upper (fit15 g)"
proof -
  have "is_alnum_upper (CHR ''X'')"
    by (simp add: is_alnum_upper_def char_class_defs)
  with assms show ?thesis
    by (auto simp: fit15_def ljust_def list_all_iff dest: in_set_takeD)
qed

lemma fit15_fixed: "length g = 15 \<Longrightarrow> fit15 g = g"
  by (simp add: fit15_def)

lemma lower_length: "length (lower s) = length s"
  by (simp add: lower_def)

lemma clean_gstin_fixed:
  "fst (clean_gstin L (Str (fst (clean_gstin L c)))) = fst (clean_gstin L c)"
proof (cases "fst (clean_gstin L c) = []")
  case True
  then show ?thesis
    by (simp add: clean_gstin_def strip_def lower_def)
next
  case False
  define g where "g = fit15 (cleansed_form (py_str L c))"
  from False have eq: "fst (clean_gstin L c) = g"
    by (auto simp: clean_gstin_def Let_def g_def split: if_splits)
  have an: "list_all is_alnum_upper g"
    unfolding g_def by (intro fit15_is_alnum cleansed_form_is_alnum)
  have len: "length g = 15"
    by (simp add: g_def length_fit15)
  have ns: "list_all (\<lambda>c. \<not> is_space c) g"
    using an alnum_not_space by (auto simp: list_all_iff is_alnum_upper_def)
  have "length (lower (strip g)) = 15"
    by (simp add: strip_no_space [OF ns] lower_length len)
  then have notnull: "lower (strip g) \<notin> set ['''', ''nan'', ''none'']"
    by auto
  have "fit15 (cleansed_form g) = g"
    by (simp add: cleansed_form_alnum [OF an] fit15_fixed len)
  with notnull have "fst (clean_gstin L (Str g)) = g"
    by (simp add: clean_gstin_def Let_def)
  then show ?thesis
    by (simp add: eq)
qed

lemma gstin_cell_fixed: "gstin_cell L ac (gstin_cell L ac c) = gstin_cell L ac c"
  by (simp add: gstin_cell_def clean_gstin_fixed fillna_str_def)

lemma fillna_str_fixed: "fillna_str L (fillna_str L c) = fillna_str L c"
  by (simp add: fillna_str_def)

lemma is_datetime_isna: "is_datetime c \<Longrightarrow> isna c \<Longrightarrow> c = NaT"
  by (cases c) auto

lemma convert_date_col_dayfirst:
  assumes "datetime_parser (to_datetime_dayfirst L)" and "datetime_parser (to_datetime_mixed L)"
  shows "convert_date_col L col = to_datetime_dayfirst L col"
proof -
  let ?c1 = "to_datetime_dayfirst L col"
  have dt: "list_all is_datetime ?c1"
    using assms(1) by (simp add: datetime_parser_def)
  then have nat: "list_all (\<lambda>c. isna c \<longrightarrow> c = NaT) ?c1"
    using is_datetime_isna by (auto simp: list_all_iff)
  have "list_all is_datetime (filter isna ?c1)"
    using dt by (auto simp: list_all_iff)
  then have "to_datetime_mixed L (filter isna ?c1) = filter isna ?c1"
    using assms(2) by (simp add: datetime_parser_def)
  moreover have "filter isna ?c1 = replicate (length (filter isna ?c1)) NaT"
    using nat by (rule filter_isna_NaT)
  ultimately have "to_datetime_mixed L (filter isna ?c1) = replicate (length (filter isna ?c1)) NaT"
    by simp
  then show ?thesis
    using nat by (simp add: convert_date_col_def Let_def assign_masked_all_same)
qed

lemma convert_date_col_fixed:
  assumes "datetime_parser (to_datetime_dayfirst L)" and "datetime_parser (to_datetime_mixed L)"
  shows "convert_date_col L (convert_date_col L col) = convert_date_col L col"
    and "length (convert_date_col L col) = length col"
  using assms by (simp_all add: convert_date_col_dayfirst datetime_parser_def)

lemma ensure_columns_superset: "set (columns d) \<subseteq> set (columns (ensure_columns names n d))"
  unfolding ensure_columns_def
proof (induction names arbitrary: d)
  case Nil
  then show ?case by simp
next
  case (Cons a names)
  show ?case
    using Cons [of d] Cons [of "d @ [(a, replicate n PyNone)]"]
    by (auto simp: columns_def)
qed

lemma ensure_columns_has: "set names \<subseteq> set (columns (ensure_columns names n d))"
proof (induction names arbitrary: d)
  case Nil
  then show ?case by simp
next
  case (Cons a names)
  have step: "ensure_columns (a # names) n d
              = ensure_columns names n (if a \<notin> set (columns d) then d @ [(a, replicate n PyNone)] else d)"
    by (simp add: ensure_columns_def)
  let ?d = "if a \<notin> set (columns d) then d @ [(a, replicate n PyNone)] else d"
  have "a \<in> set (columns ?d)"
    by (simp add: columns_def)
  then have "a \<in> set (columns (ensure_columns names n ?d))"
    using ensure_columns_superset by blast
  with Cons [of ?d] show ?case
    by (simp add: step)
qed

lemma ensure_columns_id: "set names \<subseteq> set (columns d) \<Longrightarrow> ensure_columns names n d = d"
  unfolding ensure_columns_def by (induction names) auto

lemma ensure_columns_lengths:
  "list_all (\<lambda>(nm, vs). length vs = n) d \<Longrightarrow> list_all (\<lambda>(nm, vs). length vs = n) (ensure_columns names n d)"
  unfolding ensure_columns_def by (induction names arbitrary: d) auto

lemma rename_columns_lengths:
  "list_all (\<lambda>(nm, vs). length vs = n) d \<Longrightarrow> list_all (\<lambda>(nm, vs). length vs = n) (rename_columns f d)"
  by (auto simp: rename_columns_def list_all_iff)

lemma column_length:
  assumes "list_all (\<lambda>(nm, vs). length vs = n) d" and "name \<in> set (columns d)"
  shows "length (column d name) = n"
proof -
  from assms(2) have "map_of d name \<noteq> None"
    by (simp add: columns_def map_of_eq_None_iff)
  then obtain vs where "map_of d name = Some vs"
    by blast
  moreover from this have "(name, vs) \<in> set d"
    by (rule map_of_SomeD)
  ultimately show ?thesis
    using assms(1) by (auto simp: column_def list_all_iff)
qed

lemma standardized_lengths:
  assumes "wf_df df"
  shows "list_all (\<lambda>(nm, vs). length vs = nrows df) (standardized source df)"
  using assms unfolding standardized_def wf_df_def
  by (intro ensure_columns_lengths rename_columns_lengths)

lemma standardized_has: "set (std_names source) \<subseteq> set (columns (standardized source df))"
  by (simp add: standardized_def ensure_columns_has)

lemma first_pass:
  assumes "\<not> df_empty df" and "clean_and_transform_data L ac df source cm = Inr out"
  shows "out = map (\<lambda>name. (name, normalized_column L ac (column (standardized source df)) name))
                   (final_cols_order source)"
  using assms pipeline_normalized [OF standardized_has, where L = L and n = "nrows df" and ac = ac
      and source = source and df1 = df]
  by (simp add: clean_and_transform_data_def Let_def standardized_def split: if_splits)

lemma normalize_std_names:
  "normalize_col_name ''invoice_no'' = ''invoiceno''"
  "normalize_col_name ''invoice_date'' = ''invoicedate''"
  "normalize_col_name ''supplier_gstin'' = ''suppliergstin''"
  "normalize_col_name ''taxable_value'' = ''taxablevalue''"
  "normalize_col_name ''cgst'' = ''cgst''"
  "normalize_col_name ''sgst'' = ''sgst''"
  "normalize_col_name ''igst'' = ''igst''"
  "normalize_col_name ''total_amount'' = ''totalamount''"
  "normalize_col_name ''place_of_supply'' = ''placeofsupply''"
  "normalize_col_name ''book_entry_date'' = ''bookentrydate''"
  "normalize_col_name ''match_key'' = ''matchkey''"
  by (simp_all add: normalize_col_name_def text_defs char_class_defs)

lemma reverse_standard_map_eval:
  "reverse_standard_map source =
     [(''invoiceno'', ''invoice_no''), (''invoiceno'', ''invoice_no''),
      (''billno'', ''invoice_no''), (''billno'', ''invoice_no''),
      (''invoice'', ''invoice_no''), (''invoicedate'', ''invoice_date''),
      (''invoicedate'', ''invoice_date''), (''billdate'', ''invoice_date''),
      (''billdate'', ''invoice_date''), (''date'', ''invoice_date''),
      (''suppliergstin'', ''supplier_gstin''), (''suppliergstin'', ''supplier_gstin''),
      (''gstin'', ''supplier_gstin''), (''partygstin'', ''supplier_gstin''),
      (''receivergstin'', ''supplier_gstin''), (''taxablevalue'', ''taxable_value''),
      (''taxablevalue'', ''taxable_value''), (''value'', ''taxable_value''),
      (''netamount'', ''taxable_value''), (''cgst'', ''cgst''), (''centraltax'', ''cgst''),
      (''sgst'', ''sgst''), (''statetax'', ''sgst''), (''igst'', ''igst''),
      (''integratedtax'', ''igst''), (''totalamount'', ''total_amount''),
      (''totalamount'', ''total_amount''), (''amount'', ''total_amount''),
      (''grossamount'', ''total_amount''), (''placeofsupply'', ''place_of_supply''),
      (''placeofsupply'', ''place_of_supply''), (''pos'', ''place_of_supply'')]
     @ (if source = ''Books''
        then [(''bookentrydate'', ''book_entry_date''), (''bookentrydate'', ''book_entry_date''),
      (''entrydate'', ''book_entry_date''), (''accountingdate'', ''book_entry_date'')]
        else [])"
  by (cases "source = ''Books''")
    (simp_all add: reverse_standard_map_def standard_columns_map_def squash_lower_def lower_def
      lower_char_def char_class_defs)

lemma rename_std_names:
  "rename_standard source ''invoiceno'' = ''invoice_no''"
  "rename_standard source ''invoicedate'' = ''invoice_date''"
  "rename_standard source ''suppliergstin'' = ''supplier_gstin''"
  "rename_standard source ''taxablevalue'' = ''taxable_value''"
  "rename_standard source ''cgst'' = ''cgst''"
  "rename_standard source ''sgst'' = ''sgst''"
  "rename_standard source ''igst'' = ''igst''"
  "rename_standard source ''totalamount'' = ''total_amount''"
  "rename_standard source ''placeofsupply'' = ''place_of_supply''"
  "rename_standard source ''matchkey'' = ''matchkey''"
  "rename_standard ''Books'' ''bookentrydate'' = ''book_entry_date''"
  by (simp_all add: rename_standard_def reverse_standard_map_eval squash_lower_def lower_def
      lower_char_def char_class_defs)

lemma renamed_frame:
  "rename_columns (rename_standard source)
     (rename_columns normalize_col_name (map (\<lambda>name. (name, N name)) (final_cols_order source)))
   = map (\<lambda>name. (name, N name)) (std_names source) @ [(''matchkey'', N ''match_key'')]"
  by (cases "source = ''Books''")
    (simp_all add: rename_columns_def final_cols_order_cases std_names_cases normalize_std_names
      rename_std_names)

lemma count_list_distinct: "distinct xs \<Longrightarrow> count_list xs x \<le> 1"
  by (induction xs) (auto simp: count_list_0_iff)

lemma std_names_distinct: "distinct (std_names source @ [''matchkey''])"
  by (simp add: std_names_cases)

lemma column_of_named:
  "x \<in> set xs \<Longrightarrow> column (map (\<lambda>name. (name, N name)) xs @ rest) x = N x"
  by (induction xs) (auto simp: column_def)

lemma transform_nonempty:
  assumes "\<not> df_empty df"
    and "\<not> list_ex (\<lambda>s. 1 < count_list (columns (standardized source df)) s) (std_names source)"
  shows "clean_and_transform_data L ac df source []
         = Inr (map (\<lambda>name. (name, normalized_column L ac (column (standardized source df)) name))
                    (final_cols_order source))"
  using assms pipeline_normalized [OF standardized_has, where L = L and n = "nrows df" and ac = ac
      and source = source and df1 = df]
  by (simp add: clean_and_transform_data_def Let_def standardized_def)

lemma normalized_column_fixed:
  assumes p1: "datetime_parser (to_datetime_dayfirst L)"
    and p2: "datetime_parser (to_datetime_mixed L)"
    and rb: "\<And>c. c \<in> set numeric_cols \<Longrightarrow>
               list_all (\<lambda>x. FloatC (clean_numeric L x) = x) (normalized_column L ac col c)"
    and agree: "\<And>s. s \<in> set (std_names source) \<Longrightarrow> col' s = normalized_column L ac col s"
    and name: "name \<in> set (final_cols_order source)"
  shows "normalized_column L ac col' name = normalized_column L ac col name"
proof -
  have inv: "col' ''invoice_no'' = map (\<lambda>c. Str (py_str L c)) (col ''invoice_no'')"
    using agree [of "''invoice_no''"] by (simp add: std_names_cases normalized_column_def)
  have gst: "col' ''supplier_gstin'' = map (gstin_cell L ac) (col ''supplier_gstin'')"
    using agree [of "''supplier_gstin''"] by (simp add: std_names_cases normalized_column_def)
  have pos: "col' ''place_of_supply'' = map (fillna_str L) (col ''place_of_supply'')"
    using agree [of "''place_of_supply''"]
    by (simp add: std_names_cases normalized_column_def numeric_cols_def)
  have idate: "col' ''invoice_date'' = convert_date_col L (col ''invoice_date'')"
    using agree [of "''invoice_date''"] by (simp add: std_names_cases normalized_column_def)
  have bdate: "col' ''book_entry_date'' = convert_date_col L (col ''book_entry_date'')"
    if "source = ''Books''"
    using agree [of "''book_entry_date''"] that by (simp add: std_names_cases normalized_column_def)
  have num: "map (\<lambda>c. FloatC (clean_numeric L c)) (col' c) = col' c" if "c \<in> set numeric_cols" for c
  proof -
    have "c \<in> set (std_names source)"
      using that by (auto simp: std_names_cases numeric_cols_def)
    then have "col' c = normalized_column L ac col c"
      by (rule agree)
    with rb [OF that] show ?thesis
      by (auto simp: list_all_iff intro: map_idI)
  qed
  have num': "col' c = normalized_column L ac col c" if "c \<in> set numeric_cols" for c
    using that by (intro agree) (auto simp: std_names_cases numeric_cols_def)
  from name have "name = ''invoice_no'' \<or> name = ''invoice_date'' \<or> name = ''supplier_gstin''
      \<or> name \<in> set numeric_cols \<or> name = ''place_of_supply''
      \<or> (name = ''book_entry_date'' \<and> source = ''Books'') \<or> name = ''match_key''"
    by (auto simp: final_cols_order_cases std_names_cases numeric_cols_def split: if_splits)
  then show ?thesis
  proof (elim disjE conjE, goal_cases)
    case 1
    then show ?case
      by (simp add: normalized_column_def inv comp_def)
  next
    case 2
    then show ?case
      by (simp add: normalized_column_def idate convert_date_col_fixed [OF p1 p2])
  next
    case 3
    then show ?case
      by (simp add: normalized_column_def gst comp_def gstin_cell_fixed)
  next
    case 4
    then have "name \<noteq> ''match_key''" "name \<noteq> ''invoice_no''" "name \<noteq> ''supplier_gstin''"
      "name \<noteq> ''place_of_supply''" "name \<noteq> ''invoice_date''" "name \<noteq> ''book_entry_date''"
      by (auto simp: numeric_cols_def)
    with 4 num [OF 4] num' [OF 4] show ?case
      by (simp add: normalized_column_def)
  next
    case 5
    then show ?case
      by (simp add: normalized_column_def pos comp_def fillna_str_fixed numeric_cols_def)
  next
    case 6
    then show ?case
      by (simp add: normalized_column_def bdate convert_date_col_fixed [OF p1 p2])
  next
    case 7
    then show ?case
      by (simp add: normalized_column_def inv gst comp_def gstin_cell_fixed numeric_cols_def)
  qed
qed

lemma column_of_named': "x \<in> set xs \<Longrightarrow> column (map (\<lambda>name. (name, N name)) xs) x = N x"
  using column_of_named [of x xs N "[]"] by simp

section \<open>The example tables\<close>

lemma gstr_names:
  "std_names ''GSTR-2A'' =
     [''invoice_no'', ''invoice_date'', ''supplier_gstin'', ''taxable_value'',
      ''cgst'', ''sgst'', ''igst'', ''total_amount'', ''place_of_supply'']"
  "final_cols_order ''GSTR-2A'' =
     [''invoice_no'', ''invoice_date'', ''supplier_gstin'', ''taxable_value'',
      ''cgst'', ''sgst'', ''igst'', ''total_amount'', ''place_of_supply'', ''match_key'']"
  by (simp_all add: final_cols_order_cases std_names_cases)

lemma sheet_names:
  "normalize_col_name ''Invoice No'' = ''invoiceno''"
  "normalize_col_name ''Invoice Date'' = ''invoicedate''"
  "normalize_col_name ''GSTIN'' = ''gstin''"
  "normalize_col_name ''Taxable Value'' = ''taxablevalue''"
  "normalize_col_name ''Total Amount'' = ''totalamount''"
  by (simp_all add: normalize_col_name_def text_defs char_class_defs)

lemma rename_gstin: "rename_standard source ''gstin'' = ''supplier_gstin''"
  by (simp add: rename_standard_def reverse_standard_map_eval squash_lower_def lower_def
      lower_char_def char_class_defs)

lemma py_model_fields:
  "float_str py_model = py_float_str"
  "to_datetime_dayfirst py_model = map (parse_cell parse_dmy)"
  "to_datetime_mixed py_model = map (parse_cell parse_dmy_or_iso)"
  by (simp_all add: py_model_def)

lemma is_datetime_timestamp_of_date: "is_datetime (timestamp_of_date y m d)"
  by (simp add: timestamp_of_date_def)

lemma is_datetime_parsers: "is_datetime (parse_dmy s)" "is_datetime (parse_dmy_or_iso s)"
proof -
  show dmy: "is_datetime (parse_dmy s)"
    by (simp add: parse_dmy_def is_datetime_timestamp_of_date)
  have "is_datetime (parse_iso s)"
    by (simp add: parse_iso_def is_datetime_timestamp_of_date)
  then show "is_datetime (parse_dmy_or_iso s)"
    using dmy by (cases "parse_iso s") (simp_all add: parse_dmy_or_iso_def)
qed

lemma parse_cell_datetime:
  assumes "\<And>s. is_datetime (f s)"
  shows "is_datetime (parse_cell f c)" and "is_datetime c \<Longrightarrow> parse_cell f c = c"
  using assms by (cases c; simp)+

lemma datetime_parser_map:
  assumes "\<And>s. is_datetime (f s)"
  shows "datetime_parser (map (parse_cell f))"
  unfolding datetime_parser_def
  using parse_cell_datetime [of f, OF assms]
  by (auto simp: list_all_iff intro: map_idI)

lemma py_model_parsers:
  "datetime_parser (to_datetime_dayfirst py_model)"
  "datetime_parser (to_datetime_mixed py_model)"
  by (simp_all add: py_model_fields datetime_parser_map is_datetime_parsers)

lemma float_str_tiny:
  "py_float_str (float64 (5 / 100000)) = ''5e-05''"
  "py_float_str (float64 (1 / 20000)) = ''5e-05''"
  by (simp_all add: float64_eval float_str_eval)

lemma date_cells:
  "convert_date_col py_model [PyNone] = [NaT]"
  "convert_date_col py_model [NaT] = [NaT]"
  "convert_date_col py_model [PyNone, PyNone] = [NaT, NaT]"
  "convert_date_col py_model [Str ''15/07/2023'', PyNone] = [Ts 1689379200000000000, NaT]"
  "convert_date_col py_model [Ts 1689379200000000000, NaT] = [Ts 1689379200000000000, NaT]"
  by (simp_all add: convert_date_col_def py_model_fields parse_examples)

lemma text_cells:
  "gstin_cell py_model True (Str ''22AAAAA0000A1Z5'') = Str ''22AAAAA0000A1Z5''"
  "fillna_str py_model PyNone = Str ''''"
  "fillna_str py_model (Str '''') = Str ''''"
  "make_match_key ''INV-9'' ''22AAAAA0000A1Z5'' = Str ''INV-9_22AAAAA0000A1Z5''"
  "make_match_key ''INV-001'' ''22AAAAA0000A1Z5'' = Str ''INV-001_22AAAAA0000A1Z5''"
  "make_match_key ''None'' ''22AAAAA0000A1Z5'' = NaN"
  by (simp_all add: gstin_cell_def gstin_defs gstin_pattern_list text_defs
      fillna_str_def make_match_key_def null_texts_def char_class_defs)

lemma numeric_cells:
  "clean_numeric py_model PyNone = 0"
  "clean_numeric py_model (Str ''0.00005'') = float64 (5 / 100000)"
  "clean_numeric py_model (Str ''11800.5'') = 23601 / 2"
  "clean_numeric py_model (Str ''-100'') = 100"
  "clean_numeric py_model (Str ''250'') = 250"
  "clean_numeric py_model (Str ''295'') = 295"
  "clean_numeric py_model (FloatC 0) = 0"
  "clean_numeric py_model (FloatC 100) = 100"
  "clean_numeric py_model (FloatC 250) = 250"
  "clean_numeric py_model (FloatC 295) = 295"
  "clean_numeric py_model (FloatC (23601 / 2)) = 23601 / 2"
  by (simp_all add: clean_numeric_def py_model_fields float_str_examples
      num_text_defs char_class_defs float64_examples)

lemma numeric_cell_tiny:
  "clean_numeric py_model (FloatC (float64 (5 / 100000))) = 505"
  "clean_numeric py_model (FloatC (float64 (1 / 20000))) = 505"
  by (simp_all add: clean_numeric_def py_model_fields float_str_tiny)
    (simp_all add: num_text_defs char_class_defs float64_examples)

lemma sample_standardized:
  "standardized ''GSTR-2A'' sample_table =
     [(''invoice_no'', [Str ''INV-001'', PyNone]),
      (''invoice_date'', [Str ''15/07/2023'', PyNone]),
      (''supplier_gstin'', [Str ''22AAAAA0000A1Z5'', Str ''22AAAAA0000A1Z5'']),
      (''taxable_value'', [Str ''11800.5'', Str ''250'']),
      (''total_amount'', [Str ''-100'', Str ''295'']),
      (''cgst'', [PyNone, PyNone]),
      (''sgst'', [PyNone, PyNone]),
      (''igst'', [PyNone, PyNone]),
      (''place_of_supply'', [PyNone, PyNone])]"
  by (simp add: standardized_def sample_table_def rename_columns_def sheet_names
      rename_std_names rename_gstin ensure_columns_def gstr_names columns_def nrows_def)

lemma sample_first_pass:
  "clean_and_transform_data py_model True sample_table ''GSTR-2A'' [] = Inr sample_once"
proof -
  have ne: "\<not> df_empty sample_table"
    by (simp add: df_empty_def nrows_def sample_table_def)
  have nodup: "\<not> list_ex (\<lambda>s. 1 < count_list (columns (standardized ''GSTR-2A'' sample_table)) s)
                   (std_names ''GSTR-2A'')"
    by (simp add: sample_standardized gstr_names columns_def)
  show ?thesis
    unfolding transform_nonempty [OF ne nodup] sample_standardized
    by (simp add: gstr_names normalized_column_def numeric_cols_def column_def date_cells
        text_cells numeric_cells sample_once_def)
qed

lemma sample_columns:
  "column sample_once ''taxable_value'' = [FloatC (23601 / 2), FloatC 250]"
  "column sample_once ''cgst'' = [FloatC 0, FloatC 0]"
  "column sample_once ''sgst'' = [FloatC 0, FloatC 0]"
  "column sample_once ''igst'' = [FloatC 0, FloatC 0]"
  "column sample_once ''total_amount'' = [FloatC 100, FloatC 295]"
  by (simp_all add: column_def sample_once_def)

lemma sample_standardized_total:
  "column (standardized ''GSTR-2A'' sample_table) ''total_amount'' = [Str ''-100'', Str ''295'']"
  by (simp add: sample_standardized column_def)

lemma sample_reads_back: "reads_back py_model sample_once"
  by (simp add: reads_back_def numeric_cols_def sample_columns numeric_cells)

lemma sample_wf: "wf_df sample_table" "\<not> df_empty sample_table"
  by (simp_all add: wf_df_def df_empty_def nrows_def sample_table_def)

lemma sample_rows: "frame_rows sample_once = [sample_row1, sample_row2]"
  by (simp add: frame_rows_def frame_row_def nrows_def column_def sample_once_def
      sample_row1_def sample_row2_def text_of_def date_of_def number_of_def key_of_def
      upt_rec [of 0] upt_rec [of 1])

lemma tiny_standardized:
  "standardized ''GSTR-2A'' tiny_amount_table =
     [(''invoice_no'', [Str ''INV-9'']),
      (''supplier_gstin'', [Str ''22AAAAA0000A1Z5'']),
      (''taxable_value'', [Str ''0.00005'']),
      (''invoice_date'', [PyNone]),
      (''cgst'', [PyNone]),
      (''sgst'', [PyNone]),
      (''igst'', [PyNone]),
      (''total_amount'', [PyNone]),
      (''place_of_supply'', [PyNone])]"
  by (simp add: standardized_def tiny_amount_table_def rename_columns_def sheet_names
      rename_std_names rename_gstin ensure_columns_def gstr_names columns_def nrows_def)

lemma tiny_first_pass:
  "clean_and_transform_data py_model True tiny_amount_table ''GSTR-2A'' [] = Inr tiny_amount_once"
proof -
  have ne: "\<not> df_empty tiny_amount_table"
    by (simp add: df_empty_def nrows_def tiny_amount_table_def)
  have nodup: "\<not> list_ex (\<lambda>s. 1 < count_list (columns (standardized ''GSTR-2A'' tiny_amount_table)) s)
                   (std_names ''GSTR-2A'')"
    by (simp add: tiny_standardized gstr_names columns_def)
  show ?thesis
    unfolding transform_nonempty [OF ne nodup] tiny_standardized
    by (simp add: gstr_names normalized_column_def numeric_cols_def column_def date_cells
        text_cells numeric_cells tiny_amount_once_def)
qed

lemma tiny_once_standardized:
  "standardized ''GSTR-2A'' tiny_amount_once =
     [(''invoice_no'', [Str ''INV-9'']),
      (''invoice_date'', [NaT]),
      (''supplier_gstin'', [Str ''22AAAAA0000A1Z5'']),
      (''taxable_value'', [FloatC (float64 (5 / 100000))]),
      (''cgst'', [FloatC 0]),
      (''sgst'', [FloatC 0]),
      (''igst'', [FloatC 0]),
      (''total_amount'', [FloatC 0]),
      (''place_of_supply'', [Str '''']),
      (''matchkey'', [Str ''INV-9_22AAAAA0000A1Z5''])]"
  by (simp add: standardized_def tiny_amount_once_def rename_columns_def normalize_std_names
      rename_std_names ensure_columns_def gstr_names columns_def nrows_def)

lemma tiny_second_pass:
  "clean_and_transform_data py_model True tiny_amount_once ''GSTR-2A'' [] = Inr tiny_amount_twice"
proof -
  have ne: "\<not> df_empty tiny_amount_once"
    by (simp add: df_empty_def nrows_def tiny_amount_once_def)
  have nodup: "\<not> list_ex (\<lambda>s. 1 < count_list (columns (standardized ''GSTR-2A'' tiny_amount_once)) s)
                   (std_names ''GSTR-2A'')"
    by (simp add: tiny_once_standardized gstr_names columns_def)
  show ?thesis
    unfolding transform_nonempty [OF ne nodup] tiny_once_standardized
    by (simp add: gstr_names normalized_column_def numeric_cols_def column_def date_cells
        text_cells numeric_cells numeric_cell_tiny tiny_amount_twice_def)
qed

lemma tiny_changed: "tiny_amount_twice \<noteq> tiny_amount_once"
  by (simp add: tiny_amount_twice_def tiny_amount_once_def float64_decimal_examples)

section \<open>Match key\<close>

lemma first_pass_column:
  assumes "\<not> df_empty df" and "clean_and_transform_data L ac df source cm = Inr out"
    and "name \<in> set (final_cols_order source)"
  shows "column out name = normalized_column L ac (column (standardized source df)) name"
  unfolding first_pass [OF assms(1,2)] using assms(3) by (rule column_of_named')

lemma first_pass_nrows:
  assumes "\<not> df_empty df" and "clean_and_transform_data L ac df source cm = Inr out"
  shows "nrows out = length (column (standardized source df) ''invoice_no'')"
  unfolding first_pass [OF assms]
  by (simp add: nrows_def final_cols_order_cases std_names_cases normalized_column_def)

lemma standardized_column_length:
  assumes "wf_df df" and "name \<in> set (std_names source)"
  shows "length (column (standardized source df) name) = nrows df"
  using column_length [OF standardized_lengths [OF assms(1)]] standardized_has [of source df] assms(2)
  by blast

lemma text_of_gstin_cell: "py_str L (gstin_cell L ac c) = text_of (gstin_cell L ac c)"
  by (simp add: gstin_cell_def fillna_str_def text_of_def)

lemma key_of_make_match_key:
  "key_of (make_match_key no g)
   = (if no \<in> {'''', ''None'', ''nan''} \<or> g \<in> {'''', ''None'', ''nan''} then None
      else Some (no @ ''_'' @ g))"
  by (simp add: key_of_def make_match_key_def null_texts_def)

lemma empty_result_rows:
  assumes "df_empty df" and "clean_and_transform_data L ac df source cm = Inr out"
  shows "frame_rows out = []" and "column out name = []"
proof -
  from assms have out: "out = map (\<lambda>n. (n, [])) (standard_columns source)"
    by (simp add: clean_and_transform_data_def)
  show "frame_rows out = []"
    by (simp add: out frame_rows_def nrows_def standard_columns_def)
  have "map_of (map (\<lambda>n. (n, [])) xs) name = Some vs \<Longrightarrow> vs = []" for xs :: "string list" and vs :: "cell list"
    by (induction xs) (auto split: if_splits)
  then show "column out name = []"
    by (auto simp: out column_def split: option.splits)
qed

lemma normalized_keys:
  assumes wf: "wf_df df" and first: "clean_and_transform_data L ac df source cm = Inr out"
  shows "list_all (\<lambda>r. match_key r
            = (if invoice_no r \<in> {'''', ''None'', ''nan''} \<or> supplier_gstin r \<in> {'''', ''None'', ''nan''}
               then None else Some (invoice_no r @ ''_'' @ supplier_gstin r)))
          (frame_rows out)"
proof (cases "df_empty df")
  case True
  then show ?thesis
    by (simp add: empty_result_rows(1) [OF True first])
next
  case False
  let ?col = "column (standardized source df)"
  have li: "length (?col ''invoice_no'') = nrows df"
    and lg: "length (?col ''supplier_gstin'') = nrows df"
    by (rule standardized_column_length [OF wf], simp add: std_names_cases)+
  have n: "nrows out = nrows df"
    by (simp add: first_pass_nrows [OF False first] li)
  have cols: "column out ''invoice_no'' = map (\<lambda>c. Str (py_str L c)) (?col ''invoice_no'')"
    "column out ''supplier_gstin'' = map (gstin_cell L ac) (?col ''supplier_gstin'')"
    "column out ''match_key''
       = map (\<lambda>(a, b). make_match_key (py_str L a) (py_str L b))
             (zip (map (\<lambda>c. Str (py_str L c)) (?col ''invoice_no''))
                  (map (gstin_cell L ac) (?col ''supplier_gstin'')))"
    by (simp_all add: first_pass_column [OF False first] final_cols_order_cases std_names_cases
        normalized_column_def numeric_cols_def)
  have "match_key (frame_row out i)
        = (if invoice_no (frame_row out i) \<in> {'''', ''None'', ''nan''}
              \<or> supplier_gstin (frame_row out i) \<in> {'''', ''None'', ''nan''}
           then None
           else Some (invoice_no (frame_row out i) @ ''_'' @ supplier_gstin (frame_row out i)))"
    if "i < nrows df" for i
    using that
    by (simp add: frame_row_def cols li lg text_of_gstin_cell key_of_make_match_key)
      (simp add: text_of_def)
  then show ?thesis
    by (simp add: frame_rows_def list_all_iff n)
qed

lemma normalized_key_column:
  assumes "\<not> df_empty df" and "clean_and_transform_data L ac df source cm = Inr out"
  shows "column out ''match_key''
         = map (\<lambda>(a, b). make_match_key (py_str L a) (py_str L b))
               (zip (column out ''invoice_no'') (column out ''supplier_gstin''))"
  by (simp add: first_pass_column [OF assms] final_cols_order_cases std_names_cases
      normalized_column_def numeric_cols_def)

lemma reconciliation_dropna:
  "perform_reconciliation L S gstr2a_data books_data
   = perform_reconciliation L S (dropna_match_key gstr2a_data) (dropna_match_key books_data)"
  by (simp add: perform_reconciliation_def dropna_match_key_def)

lemma dropna_undefined:
  "match_key r = None \<Longrightarrow> dropna_match_key (xs @ r # ys) = dropna_match_key (xs @ ys)"
  by (simp add: dropna_match_key_def)

lemma reconciliation_undefined_key:
  assumes "match_key r = None"
  shows "perform_reconciliation L S (xs @ r # ys) books_data
         = perform_reconciliation L S (xs @ ys) books_data"
    and "perform_reconciliation L S gstr2a_data (xs @ r # ys)
         = perform_reconciliation L S gstr2a_data (xs @ ys)"
proof -
  show "perform_reconciliation L S (xs @ r # ys) books_data
         = perform_reconciliation L S (xs @ ys) books_data"
    using reconciliation_dropna [of L S "xs @ r # ys" books_data]
      reconciliation_dropna [of L S "xs @ ys" books_data]
    by (simp add: dropna_undefined [OF assms])
  show "perform_reconciliation L S gstr2a_data (xs @ r # ys)
         = perform_reconciliation L S gstr2a_data (xs @ ys)"
    using reconciliation_dropna [of L S gstr2a_data "xs @ r # ys"]
      reconciliation_dropna [of L S gstr2a_data "xs @ ys"]
    by (simp add: dropna_undefined [OF assms])
qed

text \<open>
  C4, as stated, fails: the key builder does not trim.  An invoice number that is one
  blank is empty after trimming, yet its key is defined; and the invoice number \<open>nan\<close> is
  not empty, yet its key is undefined.
\<close>

theorem match_key_untrimmed_counterexample:
  "strip '' '' = '''' \<and> make_match_key '' '' ''22AAAAA0000A1Z5'' = Str '' _22AAAAA0000A1Z5''
   \<and> ''nan'' \<noteq> '''' \<and> make_match_key ''nan'' ''22AAAAA0000A1Z5'' = NaN"
  by (simp add: make_match_key_def null_texts_def text_defs char_class_defs)

text \<open>
  C4, amended: in every row of a table returned by \<open>clean_and_transform_data\<close> the match
  key is undefined exactly when the invoice number or the identifier of the row, as text
  and without trimming, is the empty text, \<open>None\<close> or \<open>nan\<close>; in every other case it is
  the invoice number, the separator \<open>_\<close> and the identifier.  The key column is built
  from the two normalized columns by \<open>make_match_key\<close>, for which the same holds; for an
  identifier returned by \<open>clean_gstin\<close> the key is undefined exactly when the invoice
  number is one of these three texts or the identifier is empty.  A row whose key is
  undefined is excluded from key-based matching: the reconciliation of two ledgers is the
  reconciliation of their rows with defined keys, so that adding or removing such a row
  on either side leaves its result unchanged.
\<close>

theorem match_key_exact_membership:
  "(wf_df df \<and> clean_and_transform_data L ac df source cm = Inr out \<longrightarrow>
      list_all (\<lambda>r. match_key r
                  = (if invoice_no r \<in> {'''', ''None'', ''nan''}
                        \<or> supplier_gstin r \<in> {'''', ''None'', ''nan''}
                     then None else Some (invoice_no r @ ''_'' @ supplier_gstin r)))
               (frame_rows out))
   \<and> (\<not> df_empty df \<and> clean_and_transform_data L ac df source cm = Inr out \<longrightarrow>
        column out ''match_key''
          = map (\<lambda>(a, b). make_match_key (py_str L a) (py_str L b))
                (zip (column out ''invoice_no'') (column out ''supplier_gstin'')))
   \<and> (make_match_key no g = NaN \<longleftrightarrow> no \<in> {'''', ''None'', ''nan''} \<or> g \<in> {'''', ''None'', ''nan''})
   \<and> (make_match_key no g \<noteq> NaN \<longrightarrow> make_match_key no g = Str (no @ ''_'' @ g))
   \<and> (make_match_key no (fst (clean_gstin L c)) = NaN
        \<longleftrightarrow> no \<in> {'''', ''None'', ''nan''} \<or> fst (clean_gstin L c) = '''')
   \<and> perform_reconciliation L S gstr2a_data books_data
       = perform_reconciliation L S (dropna_match_key gstr2a_data) (dropna_match_key books_data)
   \<and> (match_key r = None \<longrightarrow>
        perform_reconciliation L S (xs @ r # ys) books_data
          = perform_reconciliation L S (xs @ ys) books_data
        \<and> perform_reconciliation L S gstr2a_data (xs @ r # ys)
          = perform_reconciliation L S gstr2a_data (xs @ ys))"
proof -
  have keys: "wf_df df \<and> clean_and_transform_data L ac df source cm = Inr out \<longrightarrow>
      list_all (\<lambda>r. match_key r
                  = (if invoice_no r \<in> {'''', ''None'', ''nan''}
                        \<or> supplier_gstin r \<in> {'''', ''None'', ''nan''}
                     then None else Some (invoice_no r @ ''_'' @ supplier_gstin r)))
               (frame_rows out)"
    using normalized_keys [of df L ac source cm out] by (intro impI) (elim conjE)
  have col: "\<not> df_empty df \<and> clean_and_transform_data L ac df source cm = Inr out \<longrightarrow>
        column out ''match_key''
          = map (\<lambda>(a, b). make_match_key (py_str L a) (py_str L b))
                (zip (column out ''invoice_no'') (column out ''supplier_gstin''))"
    using normalized_key_column [of df L ac source cm out] by (intro impI) (elim conjE)
  have mk: "make_match_key no g = NaN \<longleftrightarrow> no \<in> {'''', ''None'', ''nan''} \<or> g \<in> {'''', ''None'', ''nan''}"
    "make_match_key no g \<noteq> NaN \<longrightarrow> make_match_key no g = Str (no @ ''_'' @ g)"
    "make_match_key no (fst (clean_gstin L c)) = NaN
        \<longleftrightarrow> no \<in> {'''', ''None'', ''nan''} \<or> fst (clean_gstin L c) = ''''"
    using clean_gstin_null_text [of L c]
    by (simp_all add: make_match_key_def null_texts_def)
  have excl: "match_key r = None \<longrightarrow>
        perform_reconciliation L S (xs @ r # ys) books_data
          = perform_reconciliation L S (xs @ ys) books_data
        \<and> perform_reconciliation L S gstr2a_data (xs @ r # ys)
          = perform_reconciliation L S gstr2a_data (xs @ ys)"
    using reconciliation_undefined_key(1) [where r = r and L = L and S = S and xs = xs
        and ys = ys and books_data = books_data]
      reconciliation_undefined_key(2) [where r = r and L = L and S = S and xs = xs
        and ys = ys and gstr2a_data = gstr2a_data]
    by (intro impI conjI)
  show ?thesis
    by (intro conjI) (rule keys col mk excl reconciliation_dropna)+
qed

text \<open>
  The theorem at the example sheet: the first row has the key
  \<open>INV-001_22AAAAA0000A1Z5\<close>; the second row has no invoice number, which normalizes
  to the text \<open>None\<close>, so its key is undefined and the reconciliation ignores the row.
\<close>

theorem match_key_exact_membership_witness:
  "wf_df sample_table \<and> \<not> df_empty sample_table
   \<and> clean_and_transform_data py_model True sample_table ''GSTR-2A'' [] = Inr sample_once
   \<and> frame_rows sample_once = [sample_row1, sample_row2]
   \<and> match_key sample_row1 = Some (invoice_no sample_row1 @ ''_'' @ supplier_gstin sample_row1)
   \<and> invoice_no sample_row2 = ''None'' \<and> match_key sample_row2 = None
   \<and> column sample_once ''match_key'' = [Str ''INV-001_22AAAAA0000A1Z5'', NaN]
   \<and> make_match_key ''INV-001'' ''22AAAAA0000A1Z5'' \<noteq> NaN
   \<and> make_match_key ''INV-001'' ''22AAAAA0000A1Z5'' = Str ''INV-001_22AAAAA0000A1Z5''
   \<and> perform_reconciliation py_model default_settings [sample_row1, sample_row2] []
       = perform_reconciliation py_model default_settings [sample_row1] []
   \<and> perform_reconciliation py_model default_settings [] [sample_row1, sample_row2]
       = perform_reconciliation py_model default_settings [] [sample_row1]"
  using match_key_exact_membership [where L = py_model and ac = True and df = sample_table
      and source = "''GSTR-2A''" and cm = "[]" and out = sample_once
      and no = "''INV-001''" and g = "''22AAAAA0000A1Z5''" and c = PyNone
      and S = default_settings and gstr2a_data = "[]" and books_data = "[]"
      and r = sample_row2 and xs = "[sample_row1]" and ys = "[]"]
  by (simp add: sample_wf sample_first_pass sample_rows text_cells)
    (simp add: sample_row1_def sample_row2_def sample_once_def column_def)

section \<open>Numeric columns\<close>

lemma normalized_numeric_column:
  "name \<in> set numeric_cols \<Longrightarrow>
     normalized_column L ac col name = map (\<lambda>c. FloatC (clean_numeric L c)) (col name)"
  by (auto simp: normalized_column_def numeric_cols_def)

lemma numeric_in_final: "name \<in> set numeric_cols \<Longrightarrow> name \<in> set (final_cols_order source)"
  by (auto simp: numeric_cols_def final_cols_order_cases std_names_cases)

lemma numeric_columns_converted:
  assumes "\<not> df_empty df" and "clean_and_transform_data L ac df source cm = Inr out"
    and "name \<in> set numeric_cols"
  shows "column out name
         = map (\<lambda>c. FloatC (clean_numeric L c)) (column (standardized source df) name)"
  using first_pass_column [OF assms(1,2) numeric_in_final [OF assms(3)]]
  by (simp add: normalized_numeric_column [OF assms(3)])

lemma numeric_columns_nonneg:
  assumes "clean_and_transform_data L ac df source cm = Inr out" and "name \<in> set numeric_cols"
  shows "list_all nonneg_float (column out name)"
proof (cases "df_empty df")
  case True
  then show ?thesis
    by (simp add: empty_result_rows(2) [OF True assms(1)])
next
  case False
  show ?thesis
    by (simp add: numeric_columns_converted [OF False assms] list_all_iff clean_numeric_ge0)
qed

text \<open>
  C10: every cell of a numeric column is normalized to a non-negative number, whatever
  its content, because only digits and dots reach the parser; the text \<open>-100\<close> becomes
  \<open>100.0\<close>.  So in every table returned by \<open>clean_and_transform_data\<close> all cells of the
  five numeric columns are floats that are not negative; for a non-empty input each of
  these columns is the column of the standardized input with every cell so converted.
\<close>

theorem numeric_fields_nonneg:
  "0 \<le> clean_numeric L c \<and> clean_numeric L (Str ''-100'') = 100
   \<and> (clean_and_transform_data L ac df source cm = Inr out \<longrightarrow>
        list_all (\<lambda>name. list_all nonneg_float (column out name)) numeric_cols
        \<and> (\<not> df_empty df \<longrightarrow>
             list_all (\<lambda>name. column out name
                               = map (\<lambda>c. FloatC (clean_numeric L c))
                                     (column (standardized source df) name))
                      numeric_cols))"
proof -
  have "clean_numeric L (Str ''-100'') = 100"
    by (simp add: clean_numeric_def num_text_defs char_class_defs float64_examples)
  then show ?thesis
    using numeric_columns_nonneg [of L ac df source cm out]
      numeric_columns_converted [of df L ac source cm out]
    by (simp add: clean_numeric_ge0 list_all_iff)
qed

text \<open>
  The theorem at the example sheet, whose first total is \<open>-100\<close>: the normalized total is
  \<open>100.0\<close>.
\<close>

theorem numeric_fields_nonneg_witness:
  "clean_and_transform_data py_model True sample_table ''GSTR-2A'' [] = Inr sample_once
   \<and> \<not> df_empty sample_table
   \<and> column (standardized ''GSTR-2A'' sample_table) ''total_amount'' = [Str ''-100'', Str ''295'']
   \<and> column sample_once ''total_amount'' = [FloatC 100, FloatC 295]
   \<and> list_all (\<lambda>name. list_all nonneg_float (column sample_once name)) numeric_cols"
  using numeric_fields_nonneg [where L = py_model and ac = True and df = sample_table
      and source = "''GSTR-2A''" and cm = "[]" and out = sample_once and c = PyNone]
  by (simp add: sample_wf sample_first_pass sample_columns sample_standardized_total)

section \<open>Normalizing a normalized table\<close>

text \<open>
  C7, as stated, fails: the taxable value \<open>0.00005\<close> is normalized to the float whose
  text is \<open>5e-05\<close>; normalizing the result again reads the digits \<open>505\<close> of that text, and
  the value becomes \<open>505.0\<close>.
\<close>

theorem normalization_not_idempotent_counterexample:
  "clean_and_transform_data py_model True tiny_amount_table ''GSTR-2A'' [] = Inr tiny_amount_once
   \<and> float_str py_model (float64 (5 / 100000)) = ''5e-05''
   \<and> clean_and_transform_data py_model True tiny_amount_once ''GSTR-2A'' [] = Inr tiny_amount_twice
   \<and> column tiny_amount_once ''taxable_value'' = [FloatC (float64 (5 / 100000))]
   \<and> column tiny_amount_twice ''taxable_value'' = [FloatC 505]
   \<and> tiny_amount_twice \<noteq> tiny_amount_once"
  by (simp add: tiny_first_pass tiny_second_pass tiny_changed py_model_fields float_str_tiny)
    (simp add: tiny_amount_once_def tiny_amount_twice_def column_def)

text \<open>
  C7, amended: normalizing a table that \<open>clean_and_transform_data\<close> returned gives the
  same table back, provided the numeric cells of that table read back, that is, the
  numeric conversion maps each of them to itself.  The date parsers are assumed to return
  timestamps and \<open>NaT\<close> and to keep them; the input is a well-formed frame.
\<close>

theorem normalization_idempotent_when_numbers_read_back:
  assumes p1: "datetime_parser (to_datetime_dayfirst L)"
    and p2: "datetime_parser (to_datetime_mixed L)"
    and wf: "wf_df df"
    and first: "clean_and_transform_data L ac df source cm = Inr out"
    and rb: "reads_back L out"
  shows "clean_and_transform_data L ac out source cm = Inr out"
proof (cases "df_empty df")
  case True
  with first have out: "out = map (\<lambda>n. (n, [])) (standard_columns source)"
    by (simp add: clean_and_transform_data_def)
  then have "df_empty out"
    by (simp add: df_empty_def nrows_def standard_columns_def)
  then show ?thesis
    by (simp add: clean_and_transform_data_def out)
next
  case False
  let ?d3 = "standardized source df"
  let ?N = "normalized_column L ac (column ?d3)"
  let ?fc = "final_cols_order source"
  from first False have cm: "cm = []"
    by (simp add: clean_and_transform_data_def split: if_splits)
  have out: "out = map (\<lambda>name. (name, ?N name)) ?fc"
    using first_pass [OF False first] .
  have "''invoice_no'' \<in> set (columns ?d3)"
    using standardized_has [of source df] by (auto simp: std_names_cases)
  then have "length (column ?d3 ''invoice_no'') = nrows df"
    using column_length [OF standardized_lengths [OF wf]] by blast
  then have "length (?N ''invoice_no'') = nrows df"
    by (simp add: normalized_column_def)
  moreover have "nrows out = length (?N ''invoice_no'')"
    by (simp add: out final_cols_order_cases std_names_cases nrows_def)
  moreover have "out \<noteq> []"
    by (simp add: out final_cols_order_cases)
  ultimately have nonempty: "\<not> df_empty out"
    using False by (simp add: df_empty_def)
  let ?d3' = "map (\<lambda>name. (name, ?N name)) (std_names source) @ [(''matchkey'', ?N ''match_key'')]"
  have cols: "columns ?d3' = std_names source @ [''matchkey'']"
    by (simp add: columns_def comp_def)
  have renamed: "rename_columns (rename_standard source) (rename_columns normalize_col_name out) = ?d3'"
    unfolding out by (rule renamed_frame)
  have "set (std_names source) \<subseteq> set (columns ?d3')"
    by (auto simp: cols)
  then have "ensure_columns (std_names source) (nrows out) ?d3' = ?d3'"
    by (rule ensure_columns_id)
  then have std': "standardized source out = ?d3'"
    by (simp only: standardized_def [of source out] renamed)
  have nodup: "\<not> list_ex (\<lambda>s. 1 < count_list (columns (standardized source out)) s) (std_names source)"
    using count_list_distinct [OF std_names_distinct, of source]
    by (auto simp: std' cols list_ex_iff not_less simp del: count_list_append)
  have second: "clean_and_transform_data L ac out source []
         = Inr (map (\<lambda>name. (name, normalized_column L ac (column ?d3') name)) ?fc)"
    using transform_nonempty [OF nonempty nodup, of L ac] by (simp add: std')
  have reads: "list_all (\<lambda>x. FloatC (clean_numeric L x) = x) (?N c)" if "c \<in> set numeric_cols" for c
  proof -
    have "c \<in> set ?fc"
      using that by (auto simp: final_cols_order_cases std_names_cases numeric_cols_def)
    then have "column out c = ?N c"
      unfolding out by (rule column_of_named')
    with rb that show ?thesis
      by (auto simp: reads_back_def list_all_iff)
  qed
  have agree: "column ?d3' s = ?N s" if "s \<in> set (std_names source)" for s
    using that by (rule column_of_named)
  have "normalized_column L ac (column ?d3') name = ?N name" if "name \<in> set ?fc" for name
    using p1 p2 reads agree that by (rule normalized_column_fixed)
  then have "map (\<lambda>name. (name, normalized_column L ac (column ?d3') name)) ?fc = out"
    unfolding out by (intro map_cong) auto
  with second show ?thesis
    by (simp add: cm)
qed

text \<open>
  The theorem at the example sheet, whose normalized numbers \<open>11800.5\<close>, \<open>250.0\<close>,
  \<open>100.0\<close>, \<open>295.0\<close> and \<open>0.0\<close> read back.
\<close>

theorem normalization_idempotent_when_numbers_read_back_witness:
  "datetime_parser (to_datetime_dayfirst py_model) \<and> datetime_parser (to_datetime_mixed py_model)
   \<and> wf_df sample_table
   \<and> clean_and_transform_data py_model True sample_table ''GSTR-2A'' [] = Inr sample_once
   \<and> reads_back py_model sample_once
   \<and> clean_and_transform_data py_model True sample_once ''GSTR-2A'' [] = Inr sample_once"
  using normalization_idempotent_when_numbers_read_back [OF py_model_parsers sample_wf(1)
      sample_first_pass sample_reads_back]
  by (simp add: py_model_parsers sample_wf sample_first_pass sample_reads_back)

section \<open>Summary\<close>

lemma count_issue_eq:
  "count_issue alts results = length (filter (\<lambda>d. str_contains alts (issue_type d)) results)"
  by (simp add: count_issue_def)

lemma matching_categories_sum:
  "sum_list (map matching_categories results)
   = count_issue [''Missing in Books''] results + count_issue [''Missing in GSTR-2A''] results
     + count_issue [''Date diff''] results + count_issue [''Amount diff'', ''Tax diff''] results
     + count_issue [''GSTIN mismatch''] results + count_issue [''Duplicate''] results"
  by (induction results) (simp_all add: count_issue_eq matching_categories_def categories_def)

text \<open>
  C5, amended: each category count is the number of rows whose issue text contains the
  category's tag, without regard to case, so a row is counted once in every category
  whose tag it carries and the six counts add up to the number of matching categories
  summed over the rows; the total count is the number of rows, and the two financial
  totals are the plain sums of the signed amount and tax differences over all rows.
\<close>

theorem summary_counts_per_matching_category:
  "total_discrepancies (get_summary_text S results) = length results
   \<and> missing_in_books (get_summary_text S results)
       = length (filter (\<lambda>d. str_contains [''Missing in Books''] (issue_type d)) results)
   \<and> missing_in_gstr2a (get_summary_text S results)
       = length (filter (\<lambda>d. str_contains [''Missing in GSTR-2A''] (issue_type d)) results)
   \<and> date_mismatch (get_summary_text S results)
       = length (filter (\<lambda>d. str_contains [''Date diff''] (issue_type d)) results)
   \<and> amount_tax_mismatch (get_summary_text S results)
       = length (filter (\<lambda>d. str_contains [''Amount diff'', ''Tax diff''] (issue_type d)) results)
   \<and> gstin_mismatch (get_summary_text S results)
       = length (filter (\<lambda>d. str_contains [''GSTIN mismatch''] (issue_type d)) results)
   \<and> duplicates (get_summary_text S results)
       = length (filter (\<lambda>d. str_contains [''Duplicate''] (issue_type d)) results)
   \<and> missing_in_books (get_summary_text S results) + missing_in_gstr2a (get_summary_text S results)
     + date_mismatch (get_summary_text S results) + amount_tax_mismatch (get_summary_text S results)
     + gstin_mismatch (get_summary_text S results) + duplicates (get_summary_text S results)
       = sum_list (map matching_categories results)
   \<and> total_amount_diff (get_summary_text S results) = sum_list (map amount_diff results)
   \<and> total_tax_diff (get_summary_text S results) = sum_list (map tax_diff results)"
  by (simp add: get_summary_text_def matching_categories_sum count_issue_eq)

section \<open>Duplicate detection and presence matching\<close>

lemmas kind_defs = is_duplicate_gstr2a_def is_duplicate_books_def is_missing_in_books_def
  is_missing_in_gstr2a_def

lemmas row_defs = duplicate_gstr2a_row_def duplicate_books_row_def missing_in_books_row_def
  missing_in_gstr2a_row_def

lemma missing_rows_set: "d \<in> set (missing_rows mk keys rows) \<Longrightarrow> \<exists>r. d = mk r"
  by (auto simp: missing_rows_def split: option.splits)

lemma common_rows_src: "d \<in> set (common_rows L S keys xs ys) \<Longrightarrow> src d = ''Both''"
  by (auto simp: common_rows_def compare_rows_def Let_def split: option.splits if_splits)

lemma kinds_of_rows:
  "is_duplicate_gstr2a (duplicate_gstr2a_row r)" "\<not> is_duplicate_gstr2a (duplicate_books_row r)"
  "\<not> is_duplicate_gstr2a (missing_in_books_row r)" "\<not> is_duplicate_gstr2a (missing_in_gstr2a_row r)"
  "\<not> is_duplicate_books (duplicate_gstr2a_row r)" "is_duplicate_books (duplicate_books_row r)"
  "\<not> is_duplicate_books (missing_in_books_row r)" "\<not> is_duplicate_books (missing_in_gstr2a_row r)"
  "\<not> is_missing_in_books (duplicate_gstr2a_row r)" "\<not> is_missing_in_books (duplicate_books_row r)"
  "is_missing_in_books (missing_in_books_row r)" "\<not> is_missing_in_books (missing_in_gstr2a_row r)"
  "\<not> is_missing_in_gstr2a (duplicate_gstr2a_row r)" "\<not> is_missing_in_gstr2a (duplicate_books_row r)"
  "\<not> is_missing_in_gstr2a (missing_in_books_row r)" "is_missing_in_gstr2a (missing_in_gstr2a_row r)"
  by (simp_all add: kind_defs row_defs)

lemma kinds_of_common:
  assumes "d \<in> set (common_rows L S keys xs ys)"
  shows "\<not> is_duplicate_gstr2a d" "\<not> is_duplicate_books d"
    "\<not> is_missing_in_books d" "\<not> is_missing_in_gstr2a d"
  using common_rows_src [OF assms] by (simp_all add: kind_defs)

lemma filter_missing_rows:
  "filter is_duplicate_gstr2a (missing_rows missing_in_books_row keys rows) = []"
  "filter is_duplicate_gstr2a (missing_rows missing_in_gstr2a_row keys rows) = []"
  "filter is_duplicate_books (missing_rows missing_in_books_row keys rows) = []"
  "filter is_duplicate_books (missing_rows missing_in_gstr2a_row keys rows) = []"
  "filter is_missing_in_books (missing_rows missing_in_gstr2a_row keys rows) = []"
  "filter is_missing_in_gstr2a (missing_rows missing_in_books_row keys rows) = []"
  "filter is_missing_in_books (missing_rows missing_in_books_row keys rows)
     = missing_rows missing_in_books_row keys rows"
  "filter is_missing_in_gstr2a (missing_rows missing_in_gstr2a_row keys rows)
     = missing_rows missing_in_gstr2a_row keys rows"
  by (rule filter_none filter_all; auto dest!: missing_rows_set simp: kinds_of_rows)+

lemma filter_dup_rows:
  "filter is_duplicate_gstr2a (map duplicate_gstr2a_row rs) = map duplicate_gstr2a_row rs"
  "filter is_duplicate_gstr2a (map duplicate_books_row rs) = []"
  "filter is_duplicate_books (map duplicate_books_row rs) = map duplicate_books_row rs"
  "filter is_duplicate_books (map duplicate_gstr2a_row rs) = []"
  "filter is_missing_in_books (map duplicate_gstr2a_row rs) = []"
  "filter is_missing_in_books (map duplicate_books_row rs) = []"
  "filter is_missing_in_gstr2a (map duplicate_gstr2a_row rs) = []"
  "filter is_missing_in_gstr2a (map duplicate_books_row rs) = []"
  by (rule filter_none filter_all; auto simp: kinds_of_rows)+

lemma filter_common_rows:
  "filter is_duplicate_gstr2a (common_rows L S keys xs ys) = []"
  "filter is_duplicate_books (common_rows L S keys xs ys) = []"
  "filter is_missing_in_books (common_rows L S keys xs ys) = []"
  "filter is_missing_in_gstr2a (common_rows L S keys xs ys) = []"
  by (rule filter_none; auto dest: kinds_of_common)+

lemma key_count_duplicated:
  "key_count k (duplicated_keep_false (dropna_match_key rows))
     = (if 2 \<le> key_count k rows then key_count k rows else 0)"
proof -
  let ?D = "dropna_match_key rows"
  have n: "length (filter (\<lambda>r. match_key r = Some k) ?D) = key_count k rows"
    by (simp add: key_count_def dropna_match_key_def conj_commute cong: conj_cong)
  have "filter (\<lambda>r. match_key r = Some k) (duplicated_keep_false ?D)
        = filter (\<lambda>r. match_key r = Some k \<and> 1 < length (filter (\<lambda>r'. match_key r' = Some k) ?D)) ?D"
    unfolding duplicated_keep_false_def filter_filter
    by (rule filter_cong) auto
  also have "\<dots> = (if 2 \<le> key_count k rows then filter (\<lambda>r. match_key r = Some k) ?D else [])"
    using n by auto
  finally show ?thesis
    using n by (simp add: key_count_def)
qed

text \<open>
  C2: the rows of the result tagged as duplicates of a source are, in order, one row for
  every row of that source's ledger whose defined match key occurs more than once in it;
  so a key that occurs \<open>n \<ge> 2\<close> times yields exactly \<open>n\<close> of them and a key that occurs
  once yields none.  Each is tagged as a duplicate in its source and has amount and tax
  difference zero.
\<close>

theorem duplicates_reported_per_occurrence:
  "filter is_duplicate_gstr2a (perform_reconciliation L S gstr2a_data books_data)
     = map duplicate_gstr2a_row (duplicated_keep_false (dropna_match_key gstr2a_data))
   \<and> filter is_duplicate_books (perform_reconciliation L S gstr2a_data books_data)
     = map duplicate_books_row (duplicated_keep_false (dropna_match_key books_data))
   \<and> key_count k (duplicated_keep_false (dropna_match_key rows))
     = (if 2 \<le> key_count k rows then key_count k rows else 0)
   \<and> issue_type (duplicate_gstr2a_row r) = ''Duplicate in GSTR-2A''
   \<and> issue_type (duplicate_books_row r) = ''Duplicate in Books''
   \<and> amount_diff (duplicate_gstr2a_row r) = 0 \<and> tax_diff (duplicate_gstr2a_row r) = 0
   \<and> amount_diff (duplicate_books_row r) = 0 \<and> tax_diff (duplicate_books_row r) = 0"
  by (simp add: perform_reconciliation_def Let_def filter_dup_rows filter_missing_rows
      filter_common_rows key_count_duplicated row_defs)

lemma drop_duplicates_seen_keys:
  "match_key ` set (drop_duplicates_seen seen rs) = match_key ` set rs - set seen"
  by (induction seen rs rule: drop_duplicates_seen.induct) auto

lemma drop_duplicates_seen_distinct:
  "distinct (map match_key (drop_duplicates_seen seen rs))"
proof (induction seen rs rule: drop_duplicates_seen.induct)
  case (1 seen)
  then show ?case by simp
next
  case (2 seen r rs)
  then show ?case
    using drop_duplicates_seen_keys [of "match_key r # seen" rs] by auto
qed

lemma drop_duplicates_first_keys:
  "match_key ` set (drop_duplicates_first rs) = match_key ` set rs"
  by (simp add: drop_duplicates_first_def drop_duplicates_seen_keys)

lemma drop_duplicates_first_distinct: "distinct (map match_key (drop_duplicates_first rs))"
  by (simp add: drop_duplicates_first_def drop_duplicates_seen_distinct)

lemma key_set_unique: "key_set (drop_duplicates_first rs) = map match_key (drop_duplicates_first rs)"
  by (simp add: key_set_def drop_duplicates_first_distinct)

lemma first_with_key_distinct:
  assumes "distinct (map match_key rows)" and "r \<in> set rows"
  shows "first_with_key (match_key r) rows = Some r"
  using assms unfolding first_with_key_def
  by (induction rows) (auto simp: image_iff)

lemma missing_rows_map:
  assumes "distinct (map match_key rows)" and "set ys \<subseteq> set rows"
  shows "missing_rows mk (filter P (map match_key ys)) rows = map mk (filter (\<lambda>r. P (match_key r)) ys)"
  using assms(2)
proof (induction ys)
  case Nil
  then show ?case by (simp add: missing_rows_def)
next
  case (Cons y ys)
  then have "first_with_key (match_key y) rows = Some y"
    using first_with_key_distinct [OF assms(1)] by simp
  with Cons show ?case
    by (simp add: missing_rows_def)
qed

lemma missing_part:
  "missing_rows mk (filter (\<lambda>k. k \<notin> set (key_set (drop_duplicates_first (dropna_match_key ys))))
                           (key_set (drop_duplicates_first (dropna_match_key xs))))
                (drop_duplicates_first (dropna_match_key xs))
   = map mk (only_in xs ys)"
  by (simp add: key_set_unique missing_rows_map [OF drop_duplicates_first_distinct]
      only_in_def drop_duplicates_first_keys)

lemma filter_missing_in_books:
  "filter is_missing_in_books (perform_reconciliation L S gstr2a_data books_data)
     = map missing_in_books_row (only_in gstr2a_data books_data)"
proof -
  have "filter is_missing_in_books (perform_reconciliation L S gstr2a_data books_data)
     = missing_rows missing_in_books_row
         (filter (\<lambda>k. k \<notin> set (key_set (drop_duplicates_first (dropna_match_key books_data))))
                 (key_set (drop_duplicates_first (dropna_match_key gstr2a_data))))
         (drop_duplicates_first (dropna_match_key gstr2a_data))"
    by (simp add: perform_reconciliation_def Let_def filter_dup_rows filter_missing_rows
        filter_common_rows)
  then show ?thesis
    by (simp only: missing_part)
qed

lemma filter_missing_in_gstr2a:
  "filter is_missing_in_gstr2a (perform_reconciliation L S gstr2a_data books_data)
     = map missing_in_gstr2a_row (only_in books_data gstr2a_data)"
proof -
  have "filter is_missing_in_gstr2a (perform_reconciliation L S gstr2a_data books_data)
     = missing_rows missing_in_gstr2a_row
         (filter (\<lambda>k. k \<notin> set (key_set (drop_duplicates_first (dropna_match_key gstr2a_data))))
                 (key_set (drop_duplicates_first (dropna_match_key books_data))))
         (drop_duplicates_first (dropna_match_key books_data))"
    by (simp add: perform_reconciliation_def Let_def filter_dup_rows filter_missing_rows
        filter_common_rows)
  then show ?thesis
    by (simp only: missing_part)
qed

lemma swap_sides_rows:
  "swap_sides (missing_in_books_row r) = missing_in_gstr2a_row r"
  "swap_sides (missing_in_gstr2a_row r) = missing_in_books_row r"
  by (simp_all add: swap_sides_def row_defs)

lemma missing_swapped:
  "filter is_missing_in_gstr2a (perform_reconciliation L S books_data gstr2a_data)
     = map swap_sides (filter is_missing_in_books (perform_reconciliation L S gstr2a_data books_data))"
  "filter is_missing_in_books (perform_reconciliation L S books_data gstr2a_data)
     = map swap_sides (filter is_missing_in_gstr2a (perform_reconciliation L S gstr2a_data books_data))"
  by (simp_all add: filter_missing_in_books filter_missing_in_gstr2a swap_sides_rows comp_def)

text \<open>
  C3: running the reconciliation with the two ledgers exchanged turns every
  missing-in-Books row into the missing-in-GSTR-2A row of the same invoice and back, with
  the amount and tax differences negated.  The missing-in-Books rows are one per key
  present only in the GSTR-2A ledger, carrying that row's total amount and the sum of its
  three tax components, added as floats from left to right.  The statement is about the
  rows as a multiset, since the order in which a set of keys is visited is not fixed.
\<close>

theorem presence_matching_symmetric:
  "mset (filter is_missing_in_gstr2a (perform_reconciliation L S books_data gstr2a_data))
     = image_mset swap_sides
         (mset (filter is_missing_in_books (perform_reconciliation L S gstr2a_data books_data)))
   \<and> mset (filter is_missing_in_books (perform_reconciliation L S books_data gstr2a_data))
     = image_mset swap_sides
         (mset (filter is_missing_in_gstr2a (perform_reconciliation L S gstr2a_data books_data)))
   \<and> mset (filter is_missing_in_books (perform_reconciliation L S gstr2a_data books_data))
     = image_mset missing_in_books_row (mset (only_in gstr2a_data books_data))
   \<and> amount_diff (missing_in_books_row r) = total_amount r
   \<and> tax_diff (missing_in_books_row r) = float_add (float_add (cgst r) (sgst r)) (igst r)
   \<and> inv_no (swap_sides d) = inv_no d
   \<and> amount_diff (swap_sides d) = - amount_diff d
   \<and> tax_diff (swap_sides d) = - tax_diff d"
proof -
  have "amount_diff (missing_in_books_row r) = total_amount r
        \<and> tax_diff (missing_in_books_row r) = float_add (float_add (cgst r) (sgst r)) (igst r)
        \<and> inv_no (swap_sides d) = inv_no d
        \<and> amount_diff (swap_sides d) = - amount_diff d
        \<and> tax_diff (swap_sides d) = - tax_diff d"
    by (simp add: missing_in_books_row_def swap_sides_def tax_total_def)
  moreover have "mset (filter is_missing_in_gstr2a (perform_reconciliation L S books_data gstr2a_data))
     = image_mset swap_sides
         (mset (filter is_missing_in_books (perform_reconciliation L S gstr2a_data books_data)))"
    by (simp only: missing_swapped(1) [of L S books_data gstr2a_data] mset_map)
  moreover have "mset (filter is_missing_in_books (perform_reconciliation L S books_data gstr2a_data))
     = image_mset swap_sides
         (mset (filter is_missing_in_gstr2a (perform_reconciliation L S gstr2a_data books_data)))"
    by (simp only: missing_swapped(2) [of L S books_data gstr2a_data] mset_map)
  moreover have "mset (filter is_missing_in_books (perform_reconciliation L S gstr2a_data books_data))
     = image_mset missing_in_books_row (mset (only_in gstr2a_data books_data))"
    by (simp only: filter_missing_in_books mset_map)
  ultimately show ?thesis
    by blast
qed

lemmas example_defs = example_gstr2a_def example_books_def inv001_gstr_def inv002_gstr_def
  inv003_gstr_def inv001_books_beyond_def inv001_books_within_def

lemma example_duplicated:
  "duplicated_keep_false (dropna_match_key example_gstr2a) = [inv003_gstr, inv003_gstr]"
  by (simp add: duplicated_keep_false_def dropna_match_key_def example_defs)

lemma example_key_counts:
  "key_count ''INV-003_22AAAAA0000A1Z5'' example_gstr2a = 2"
  "key_count ''INV-002_22AAAAA0000A1Z5'' example_gstr2a = 1"
  by (simp_all add: key_count_def example_defs)

text \<open>The theorem at the example ledger, where \<open>INV-003\<close> occurs twice and \<open>INV-002\<close> once.\<close>

theorem duplicates_reported_per_occurrence_witness:
  "key_count ''INV-003_22AAAAA0000A1Z5'' example_gstr2a = 2
   \<and> filter is_duplicate_gstr2a (perform_reconciliation py_model default_settings example_gstr2a example_books)
       = [duplicate_gstr2a_row inv003_gstr, duplicate_gstr2a_row inv003_gstr]
   \<and> key_count ''INV-003_22AAAAA0000A1Z5'' (duplicated_keep_false (dropna_match_key example_gstr2a)) = 2
   \<and> key_count ''INV-002_22AAAAA0000A1Z5'' example_gstr2a = 1
   \<and> key_count ''INV-002_22AAAAA0000A1Z5'' (duplicated_keep_false (dropna_match_key example_gstr2a)) = 0"
  using duplicates_reported_per_occurrence [where L = py_model and S = default_settings
      and gstr2a_data = example_gstr2a and books_data = example_books
      and k = "''INV-003_22AAAAA0000A1Z5''" and rows = example_gstr2a and r = inv003_gstr]
    duplicates_reported_per_occurrence [where L = py_model and S = default_settings
      and gstr2a_data = example_gstr2a and books_data = example_books
      and k = "''INV-002_22AAAAA0000A1Z5''" and rows = example_gstr2a and r = inv003_gstr]
  by (simp add: example_key_counts example_duplicated)

lemma example_only_in:
  "only_in example_gstr2a example_books = [inv002_gstr, inv003_gstr]"
  "only_in example_books example_gstr2a = []"
  by (simp_all add: only_in_def dropna_match_key_def drop_duplicates_first_def example_defs)

text \<open>The theorem at the example ledgers, where \<open>INV-002\<close> and \<open>INV-003\<close> are missing in Books.\<close>

theorem presence_matching_symmetric_witness:
  "mset (filter is_missing_in_books (perform_reconciliation py_model default_settings example_gstr2a example_books))
     = {#missing_in_books_row inv002_gstr, missing_in_books_row inv003_gstr#}
   \<and> mset (filter is_missing_in_gstr2a (perform_reconciliation py_model default_settings example_books example_gstr2a))
     = {#swap_sides (missing_in_books_row inv002_gstr), swap_sides (missing_in_books_row inv003_gstr)#}
   \<and> amount_diff (missing_in_books_row inv002_gstr) = 5900
   \<and> tax_diff (missing_in_books_row inv002_gstr) = 900
   \<and> amount_diff (swap_sides (missing_in_books_row inv002_gstr)) = - 5900
   \<and> tax_diff (swap_sides (missing_in_books_row inv002_gstr)) = - 900"
  using presence_matching_symmetric [where L = py_model and S = default_settings
      and gstr2a_data = example_gstr2a and books_data = example_books and r = inv002_gstr
      and d = "missing_in_books_row inv002_gstr"]
  by (simp add: example_only_in)
    (simp add: inv002_gstr_def missing_in_books_row_def tax_total_def float_add_def float64_examples)

section \<open>Tolerance checks on common keys\<close>

lemma flagged_append: "flagged tag (xs @ ys) \<longleftrightarrow> flagged tag xs \<or> flagged tag ys"
  by (simp add: flagged_def)

lemma flagged_Nil: "\<not> flagged tag []"
  by (simp add: flagged_def)

lemma flagged_date:
  "flagged ''Date diff'' (date_issues S (Some g) (Some b)) \<longleftrightarrow> \<bar>timedelta_days g b\<bar> > date_tolerance S"
  "\<not> flagged ''Amount diff'' (date_issues S gd bd)"
  "\<not> flagged ''Tax diff'' (date_issues S gd bd)"
  by (auto simp: flagged_def date_issues_def Let_def split: option.splits)

lemma flagged_gstin:
  "\<not> flagged ''Date diff'' (gstin_issues x y)"
  "\<not> flagged ''Amount diff'' (gstin_issues x y)"
  "\<not> flagged ''Tax diff'' (gstin_issues x y)"
  by (simp_all add: flagged_def gstin_issues_def)

lemma flagged_amount:
  "flagged ''Amount diff'' (amount_issues L S x) \<longleftrightarrow> \<bar>x\<bar> > amount_tolerance S"
  "\<not> flagged ''Date diff'' (amount_issues L S x)"
  "\<not> flagged ''Tax diff'' (amount_issues L S x)"
  by (simp_all add: flagged_def amount_issues_def)

lemma flagged_tax:
  "flagged ''Tax diff'' (tax_issues L S x) \<longleftrightarrow> \<bar>x\<bar> > amount_tolerance S"
  "\<not> flagged ''Date diff'' (tax_issues L S x)"
  "\<not> flagged ''Amount diff'' (tax_issues L S x)"
  by (simp_all add: flagged_def tax_issues_def)

lemma flagged_row_issues:
  "invoice_date a = Some ta \<Longrightarrow> invoice_date b = Some tb \<Longrightarrow>
     flagged ''Date diff'' (row_issues L S a b) \<longleftrightarrow> \<bar>timedelta_days ta tb\<bar> > date_tolerance S"
  "flagged ''Amount diff'' (row_issues L S a b) \<longleftrightarrow> \<bar>amount_difference a b\<bar> > amount_tolerance S"
  "flagged ''Tax diff'' (row_issues L S a b) \<longleftrightarrow> \<bar>tax_difference a b\<bar> > amount_tolerance S"
  by (simp_all add: row_issues_def flagged_append flagged_date flagged_gstin flagged_amount flagged_tax)

lemma find_dropna:
  "k \<noteq> None \<Longrightarrow> find (\<lambda>b. match_key b = k) (dropna_match_key rows) = find (\<lambda>b. match_key b = k) rows"
  unfolding dropna_match_key_def by (induction rows) auto

lemma find_drop_duplicates_seen:
  "k \<notin> set seen \<Longrightarrow>
     find (\<lambda>b. match_key b = k) (drop_duplicates_seen seen rows) = find (\<lambda>b. match_key b = k) rows"
  by (induction seen rows rule: drop_duplicates_seen.induct) auto

lemma first_with_key_unique:
  "k \<noteq> None \<Longrightarrow>
     first_with_key k (drop_duplicates_first (dropna_match_key rows)) = find (\<lambda>b. match_key b = k) rows"
  by (simp add: first_with_key_def drop_duplicates_first_def find_drop_duplicates_seen find_dropna)

lemma first_with_key_None:
  "first_with_key k rows = None \<longleftrightarrow> k \<notin> match_key ` set rows"
  by (auto simp: first_with_key_def find_None_iff)

lemma common_rows_pairs:
  assumes "distinct (map match_key rows)" and "set gs \<subseteq> set rows"
  shows "common_rows L S (filter (\<lambda>k. k \<in> match_key ` set others) (map match_key gs)) rows others
         = concat (map (\<lambda>g. case first_with_key (match_key g) others of
                               Some b \<Rightarrow> compare_rows L S g b | None \<Rightarrow> []) gs)"
  using assms(2)
proof (induction gs)
  case Nil
  then show ?case by (simp add: common_rows_def)
next
  case (Cons g gs)
  then have g: "first_with_key (match_key g) rows = Some g"
    using first_with_key_distinct [OF assms(1)] by simp
  have ih: "common_rows L S (filter (\<lambda>k. k \<in> match_key ` set others) (map match_key gs)) rows others
         = concat (map (\<lambda>g. case first_with_key (match_key g) others of
                               Some b \<Rightarrow> compare_rows L S g b | None \<Rightarrow> []) gs)"
    using Cons by simp
  show ?case
  proof (cases "match_key g \<in> match_key ` set others")
    case True
    then obtain b where "first_with_key (match_key g) others = Some b"
      using first_with_key_None [of "match_key g" others] by (cases "first_with_key (match_key g) others") auto
    with True g ih show ?thesis
      by (simp add: common_rows_def)
  next
    case False
    then have "first_with_key (match_key g) others = None"
      by (simp add: first_with_key_None)
    with False ih show ?thesis
      by simp
  qed
qed

lemma concat_map_pairs:
  "concat (map (\<lambda>g. case h g of Some b \<Rightarrow> f g b | None \<Rightarrow> []) gs)
   = concat (map (\<lambda>(g, b). f g b) (concat (map (\<lambda>g. case h g of Some b \<Rightarrow> [(g, b)] | None \<Rightarrow> []) gs)))"
  by (induction gs) (auto split: option.splits)

lemma dropna_keys: "r \<in> set (drop_duplicates_first (dropna_match_key rows)) \<Longrightarrow> match_key r \<noteq> None"
proof -
  assume "r \<in> set (drop_duplicates_first (dropna_match_key rows))"
  then have "match_key r \<in> match_key ` set (drop_duplicates_first (dropna_match_key rows))"
    by blast
  then show ?thesis
    by (auto simp: drop_duplicates_first_keys dropna_match_key_def)
qed

lemma common_part:
  "common_rows L S
     (filter (\<lambda>k. k \<in> set (key_set (drop_duplicates_first (dropna_match_key books_data))))
             (key_set (drop_duplicates_first (dropna_match_key gstr2a_data))))
     (drop_duplicates_first (dropna_match_key gstr2a_data))
     (drop_duplicates_first (dropna_match_key books_data))
   = concat (map (\<lambda>(g, b). compare_rows L S g b) (matched_pairs gstr2a_data books_data))"
proof -
  let ?gu = "drop_duplicates_first (dropna_match_key gstr2a_data)"
  let ?bu = "drop_duplicates_first (dropna_match_key books_data)"
  have "common_rows L S (filter (\<lambda>k. k \<in> match_key ` set ?bu) (map match_key ?gu)) ?gu ?bu
        = concat (map (\<lambda>g. case first_with_key (match_key g) ?bu of
                              Some b \<Rightarrow> compare_rows L S g b | None \<Rightarrow> []) ?gu)"
    by (rule common_rows_pairs [OF drop_duplicates_first_distinct]) simp
  also have "\<dots> = concat (map (\<lambda>g. case find (\<lambda>b. match_key b = match_key g) books_data of
                              Some b \<Rightarrow> compare_rows L S g b | None \<Rightarrow> []) ?gu)"
    by (intro arg_cong [where f = concat] map_cong refl) (simp add: first_with_key_unique dropna_keys)
  also have "\<dots> = concat (map (\<lambda>(g, b). compare_rows L S g b) (matched_pairs gstr2a_data books_data))"
    unfolding matched_pairs_def by (rule concat_map_pairs)
  finally show ?thesis
    by (simp add: key_set_unique)
qed

lemma src_of_rows:
  "src (duplicate_gstr2a_row r) \<noteq> ''Both''" "src (duplicate_books_row r) \<noteq> ''Both''"
  "src (missing_in_books_row r) \<noteq> ''Both''" "src (missing_in_gstr2a_row r) \<noteq> ''Both''"
  by (simp_all add: row_defs)

lemma filter_both:
  "filter (\<lambda>d. src d = ''Both'') (map duplicate_gstr2a_row rs) = []"
  "filter (\<lambda>d. src d = ''Both'') (map duplicate_books_row rs) = []"
  "filter (\<lambda>d. src d = ''Both'') (missing_rows missing_in_books_row keys rows) = []"
  "filter (\<lambda>d. src d = ''Both'') (missing_rows missing_in_gstr2a_row keys rows) = []"
  "filter (\<lambda>d. src d = ''Both'') (common_rows L S keys xs ys) = common_rows L S keys xs ys"
  by (rule filter_none filter_all; auto dest!: missing_rows_set dest: common_rows_src simp: src_of_rows)+

lemma compared_rows:
  "filter (\<lambda>d. src d = ''Both'') (perform_reconciliation L S gstr2a_data books_data)
   = concat (map (\<lambda>(g, b). compare_rows L S g b) (matched_pairs gstr2a_data books_data))"
proof -
  have "filter (\<lambda>d. src d = ''Both'') (perform_reconciliation L S gstr2a_data books_data)
        = common_rows L S
            (filter (\<lambda>k. k \<in> set (key_set (drop_duplicates_first (dropna_match_key books_data))))
                    (key_set (drop_duplicates_first (dropna_match_key gstr2a_data))))
            (drop_duplicates_first (dropna_match_key gstr2a_data))
            (drop_duplicates_first (dropna_match_key books_data))"
    by (simp add: perform_reconciliation_def Let_def filter_both)
  then show ?thesis
    by (simp only: common_part)
qed

lemma compare_rows_issues:
  "row_issues L S g b = [] \<Longrightarrow> compare_rows L S g b = []"
  "row_issues L S g b \<noteq> [] \<Longrightarrow> map issue_type (compare_rows L S g b) = [join '', '' (row_issues L S g b)]"
  "row_issues L S g b \<noteq> [] \<Longrightarrow> map amount_diff (compare_rows L S g b) = [amount_difference g b]"
  "row_issues L S g b \<noteq> [] \<Longrightarrow> map tax_diff (compare_rows L S g b) = [tax_difference g b]"
  by (simp_all add: compare_rows_def Let_def)

text \<open>
  C1: the rows of the result with source \<open>Both\<close> are the rows that \<open>compare_rows\<close> gives
  for the pairs of rows matched on a common key (as a multiset, since the order in which a
  set of keys is visited is not fixed); a pair yields no row when its issue list is empty
  and otherwise one row whose issue text is the issue list joined, with the amount and tax
  differences as computed.  In the issue list of a pair: when both rows are dated, a
  difference of exactly the date tolerance in whole days raises no date flag and a
  difference of the tolerance plus one day raises it; a difference of the totals of
  exactly the currency tolerance raises no amount flag and every larger one raises it;
  likewise for the difference of the tax totals, each the sum of the three tax components
  of its side.  The differences are the floats that the code computes.
\<close>

theorem tolerance_checks_strict:
  "mset (filter (\<lambda>d. src d = ''Both'') (perform_reconciliation L S gstr2a_data books_data))
     = mset (concat (map (\<lambda>(g, b). compare_rows L S g b) (matched_pairs gstr2a_data books_data)))
   \<and> (row_issues L S a b = [] \<longrightarrow> compare_rows L S a b = [])
   \<and> (row_issues L S a b \<noteq> [] \<longrightarrow>
        map issue_type (compare_rows L S a b) = [join '', '' (row_issues L S a b)]
        \<and> map amount_diff (compare_rows L S a b) = [amount_difference a b]
        \<and> map tax_diff (compare_rows L S a b) = [tax_difference a b])
   \<and> amount_difference a b = float_sub (total_amount a) (total_amount b)
   \<and> tax_difference a b
       = float_sub (float_add (float_add (cgst a) (sgst a)) (igst a))
                   (float_add (float_add (cgst b) (sgst b)) (igst b))
   \<and> (invoice_date a = Some ta \<and> invoice_date b = Some tb
        \<and> \<bar>timedelta_days ta tb\<bar> = date_tolerance S
        \<longrightarrow> \<not> flagged ''Date diff'' (row_issues L S a b))
   \<and> (invoice_date a = Some ta \<and> invoice_date b = Some tb
        \<and> \<bar>timedelta_days ta tb\<bar> = date_tolerance S + 1
        \<longrightarrow> flagged ''Date diff'' (row_issues L S a b))
   \<and> (\<bar>amount_difference a b\<bar> = amount_tolerance S \<longrightarrow> \<not> flagged ''Amount diff'' (row_issues L S a b))
   \<and> (\<bar>amount_difference a b\<bar> > amount_tolerance S \<longrightarrow> flagged ''Amount diff'' (row_issues L S a b))
   \<and> (\<bar>tax_difference a b\<bar> = amount_tolerance S \<longrightarrow> \<not> flagged ''Tax diff'' (row_issues L S a b))
   \<and> (\<bar>tax_difference a b\<bar> > amount_tolerance S \<longrightarrow> flagged ''Tax diff'' (row_issues L S a b))"
proof -
  have "mset (filter (\<lambda>d. src d = ''Both'') (perform_reconciliation L S gstr2a_data books_data))
     = mset (concat (map (\<lambda>(g, b). compare_rows L S g b) (matched_pairs gstr2a_data books_data)))"
    by (simp only: compared_rows)
  moreover have "amount_difference a b = float_sub (total_amount a) (total_amount b)
     \<and> tax_difference a b
       = float_sub (float_add (float_add (cgst a) (sgst a)) (igst a))
                   (float_add (float_add (cgst b) (sgst b)) (igst b))"
    by (simp add: amount_difference_def tax_difference_def tax_total_def)
  moreover have "(invoice_date a = Some ta \<and> invoice_date b = Some tb
        \<and> \<bar>timedelta_days ta tb\<bar> = date_tolerance S
        \<longrightarrow> \<not> flagged ''Date diff'' (row_issues L S a b))
   \<and> (invoice_date a = Some ta \<and> invoice_date b = Some tb
        \<and> \<bar>timedelta_days ta tb\<bar> = date_tolerance S + 1
        \<longrightarrow> flagged ''Date diff'' (row_issues L S a b))"
    using flagged_row_issues(1) [of a ta b tb L S] by auto
  ultimately show ?thesis
    using compare_rows_issues [of L S a b] flagged_row_issues(2,3) [of L S a b]
    by simp
qed

lemma example_rows:
  "invoice_date inv001_gstr = Some 1689379200000000000"
  "invoice_date inv001_books_within = Some 1689638400000000000"
  "invoice_date inv001_books_beyond = Some 1689724800000000000"
  "amount_difference inv001_gstr inv001_books_within = 1"
  "amount_difference inv001_gstr inv001_books_beyond = 100"
  "tax_difference inv001_gstr inv001_books_within = 1"
  "tax_difference inv001_gstr inv001_books_beyond = 2"
  "timedelta_days 1689379200000000000 1689638400000000000 = - 3"
  "timedelta_days 1689379200000000000 1689724800000000000 = - 4"
  by (simp_all add: inv001_gstr_def inv001_books_within_def inv001_books_beyond_def
      amount_difference_def tax_difference_def tax_total_def float_add_def float_sub_def
      float64_examples timedelta_days_def day_ns_def)

lemma default_tolerances:
  "date_tolerance default_settings = 3" "amount_tolerance default_settings = 1"
  by (simp_all add: default_settings_def)

lemma format_2f_examples:
  "format_2f py_model 100 = ''100.00''"
  "format_2f py_model 2 = ''2.00''"
  by (simp_all add: py_model_def py_format_2f_def round_half_even_def Let_def num_text_defs char_class_defs)

lemma row_issues_within:
  "row_issues py_model default_settings inv001_gstr inv001_books_within = []"
  by (simp add: row_issues_def date_issues_def gstin_issues_def amount_issues_def tax_issues_def
      example_rows default_settings_def)
    (simp add: inv001_gstr_def inv001_books_within_def)

lemma row_issues_beyond:
  "row_issues py_model default_settings inv001_gstr inv001_books_beyond
     = [''Date diff: 4 days'', ''Amount diff: '' @ rupee @ ''100.00'', ''Tax diff: '' @ rupee @ ''2.00'']"
  by (simp add: row_issues_def date_issues_def gstin_issues_def amount_issues_def tax_issues_def
      example_rows default_settings_def format_2f_examples num_text_defs char_class_defs)
    (simp add: inv001_gstr_def inv001_books_beyond_def)

lemma float_difference_example:
  "amount_difference inv004_gstr inv004_books = 4503599627370497 / 4503599627370496"
  by (simp add: amount_difference_def float_sub_def inv004_gstr_def inv004_books_def
      inv001_gstr_def float64_decimal_examples)
    (simp add: float64_eval)

lemma float_difference_rounded:
  "amount_difference inv005_gstr inv005_books = 1"
  "tax_difference inv005_gstr inv005_books = 0"
  "invoice_date inv005_gstr = invoice_date inv005_books"
  "supplier_gstin inv005_gstr = supplier_gstin inv005_books"
proof -
  have "float64 (9999999999999999 / 10 ^ 16) = 9007199254740991 / 2 ^ 53"
    by (simp add: float64_eval)
  then show "amount_difference inv005_gstr inv005_books = 1"
    by (simp add: amount_difference_def float_sub_def inv005_gstr_def inv005_books_def
        inv001_gstr_def)
      (simp add: float64_eval)
  show "tax_difference inv005_gstr inv005_books = 0"
    by (simp add: tax_difference_def float_sub_def tax_total_def inv005_gstr_def
        inv005_books_def float64_def)
  show "invoice_date inv005_gstr = invoice_date inv005_books"
    "supplier_gstin inv005_gstr = supplier_gstin inv005_books"
    by (simp_all add: inv005_gstr_def inv005_books_def)
qed

text \<open>
  The theorem at the example rows, with the default tolerances of 3 days and 1.00: the
  Books row exactly at the tolerances yields no row, the one beyond them yields one row
  with the three flags.  The totals \<open>2.14\<close> and \<open>1.14\<close> differ, as floats, by more than
  \<open>1.00\<close> and are flagged; the totals \<open>2.0\<close> and \<open>0.9999999999999999\<close> differ, as
  floats, by \<open>1.0\<close> and are not.
\<close>

theorem tolerance_checks_strict_witness:
  "invoice_date inv001_gstr = Some 1689379200000000000
   \<and> invoice_date inv001_books_within = Some 1689638400000000000
   \<and> \<bar>timedelta_days 1689379200000000000 1689638400000000000\<bar> = date_tolerance default_settings
   \<and> \<bar>amount_difference inv001_gstr inv001_books_within\<bar> = amount_tolerance default_settings
   \<and> \<bar>tax_difference inv001_gstr inv001_books_within\<bar> = amount_tolerance default_settings
   \<and> row_issues py_model default_settings inv001_gstr inv001_books_within = []
   \<and> compare_rows py_model default_settings inv001_gstr inv001_books_within = []
   \<and> invoice_date inv001_books_beyond = Some 1689724800000000000
   \<and> \<bar>timedelta_days 1689379200000000000 1689724800000000000\<bar> = date_tolerance default_settings + 1
   \<and> \<bar>amount_difference inv001_gstr inv001_books_beyond\<bar> > amount_tolerance default_settings
   \<and> \<bar>tax_difference inv001_gstr inv001_books_beyond\<bar> > amount_tolerance default_settings
   \<and> flagged ''Date diff'' (row_issues py_model default_settings inv001_gstr inv001_books_beyond)
   \<and> flagged ''Amount diff'' (row_issues py_model default_settings inv001_gstr inv001_books_beyond)
   \<and> flagged ''Tax diff'' (row_issues py_model default_settings inv001_gstr inv001_books_beyond)
   \<and> map issue_type (compare_rows py_model default_settings inv001_gstr inv001_books_beyond)
       = [''Date diff: 4 days, Amount diff: '' @ rupee @ ''100.00, Tax diff: '' @ rupee @ ''2.00'']
   \<and> map amount_diff (compare_rows py_model default_settings inv001_gstr inv001_books_beyond) = [100]
   \<and> map tax_diff (compare_rows py_model default_settings inv001_gstr inv001_books_beyond) = [2]
   \<and> \<bar>amount_difference inv004_gstr inv004_books\<bar> > amount_tolerance default_settings
   \<and> flagged ''Amount diff'' (row_issues py_model default_settings inv004_gstr inv004_books)
   \<and> \<bar>amount_difference inv005_gstr inv005_books\<bar> = amount_tolerance default_settings
   \<and> \<not> flagged ''Amount diff'' (row_issues py_model default_settings inv005_gstr inv005_books)"
  using tolerance_checks_strict [where L = py_model and S = default_settings
      and gstr2a_data = "[]" and books_data = "[]"
      and a = inv001_gstr and b = inv001_books_within
      and ta = 1689379200000000000 and tb = 1689638400000000000]
    tolerance_checks_strict [where L = py_model and S = default_settings
      and gstr2a_data = "[]" and books_data = "[]"
      and a = inv001_gstr and b = inv001_books_beyond
      and ta = 1689379200000000000 and tb = 1689724800000000000]
    tolerance_checks_strict [where L = py_model and S = default_settings
      and gstr2a_data = "[]" and books_data = "[]"
      and a = inv004_gstr and b = inv004_books and ta = 0 and tb = 0]
    tolerance_checks_strict [where L = py_model and S = default_settings
      and gstr2a_data = "[]" and books_data = "[]"
      and a = inv005_gstr and b = inv005_books and ta = 0 and tb = 0]
  by (simp add: example_rows row_issues_within row_issues_beyond float_difference_example
      float_difference_rounded(1) default_tolerances)

lemmas recon_defs = perform_reconciliation_def dropna_match_key_def duplicated_keep_false_def
  drop_duplicates_first_def key_set_def missing_rows_def common_rows_def first_with_key_def
  compare_rows_def

lemma recon_example:
  "map issue_type (perform_reconciliation py_model default_settings [inv001_gstr] [inv001_books_beyond])
     = [''Date diff: 4 days, Amount diff: '' @ rupee @ ''100.00, Tax diff: '' @ rupee @ ''2.00'']"
  by (simp add: recon_defs row_issues_beyond)
    (simp add: inv001_gstr_def inv001_books_beyond_def)

lemma count_issue_map:
  "count_issue alts results = length (filter (str_contains alts) (map issue_type results))"
  by (simp add: count_issue_def filter_map comp_def)

lemma lower_example:
  "lower (''Date diff: 4 days, Amount diff: '' @ rupee @ ''100.00, Tax diff: '' @ rupee @ ''2.00'')
     = ''date diff: 4 days, amount diff: '' @ rupee @ ''100.00, tax diff: '' @ rupee @ ''2.00''"
  "lower ''Date diff'' = ''date diff''"
  "lower ''Amount diff'' = ''amount diff''"
  "lower ''Tax diff'' = ''tax diff''"
  by (simp_all add: rupee_def lower_def lower_char_def char_class_defs)

lemma str_contains_example:
  "str_contains [''Date diff'']
     (''Date diff: 4 days, Amount diff: '' @ rupee @ ''100.00, Tax diff: '' @ rupee @ ''2.00'')"
  "str_contains [''Amount diff'', ''Tax diff'']
     (''Date diff: 4 days, Amount diff: '' @ rupee @ ''100.00, Tax diff: '' @ rupee @ ''2.00'')"
  unfolding str_contains_def list_ex_Cons_iff list_ex_Nil_iff lower_example
  by (simp_all add: rupee_def)

text \<open>
  C5, as stated, fails: the comparison of \<open>INV-001\<close> beyond the tolerances yields one
  row with three tags, and the summary counts it both as a date mismatch and as an
  amount/tax mismatch.
\<close>

theorem summary_counts_twice_counterexample:
  "map issue_type (perform_reconciliation py_model default_settings [inv001_gstr] [inv001_books_beyond])
     = [''Date diff: 4 days, Amount diff: '' @ rupee @ ''100.00, Tax diff: '' @ rupee @ ''2.00'']
   \<and> total_discrepancies (get_summary_text default_settings
         (perform_reconciliation py_model default_settings [inv001_gstr] [inv001_books_beyond])) = 1
   \<and> date_mismatch (get_summary_text default_settings
         (perform_reconciliation py_model default_settings [inv001_gstr] [inv001_books_beyond])) = 1
   \<and> amount_tax_mismatch (get_summary_text default_settings
         (perform_reconciliation py_model default_settings [inv001_gstr] [inv001_books_beyond])) = 1"
proof -
  let ?results = "perform_reconciliation py_model default_settings [inv001_gstr] [inv001_books_beyond]"
  have n: "length ?results = 1"
    using arg_cong [OF recon_example, of length] by simp
  have d: "count_issue [''Date diff''] ?results = 1"
    by (simp only: count_issue_map recon_example filter.simps str_contains_example if_True list.size)
  have a: "count_issue [''Amount diff'', ''Tax diff''] ?results = 1"
    by (simp only: count_issue_map recon_example filter.simps str_contains_example if_True list.size)
  show ?thesis
    using n d a by (simp add: get_summary_text_def recon_example)
qed

end
